theory Spec2Isabelle
  imports Complex_Main "HOL-Library.Word"
begin

section \<open>Data model\<close>

text \<open>
  The harness is a set of ns-3 programs, one per topology and transport
  (\<^verbatim>\<open>quicbbr.cc\<close>, \<^verbatim>\<open>tcpcubic.cc\<close>). The instrumentation pipeline of each
  program is a handful of callbacks over process-wide globals. The globals become one record that
  every callback takes and returns.

  \<^item> \<^verbatim>\<open>uint32_t\<close> and \<^verbatim>\<open>uint64_t\<close> are \<open>32 word\<close> and \<open>64 word\<close>: \<open>+\<close> and \<open>-\<close> wrap,
    \<open>div\<close> is the unsigned division of C++.
  \<^item> \<^verbatim>\<open>ns3::Time\<close> is a count of nanoseconds (the programs set \<^verbatim>\<open>Time::NS\<close>, the default
    resolution), modelled as \<open>int\<close>; the runs last 100 simulated seconds, so the 64-bit range is
    never left.
  \<^item> \<^verbatim>\<open>double\<close> is modelled as \<open>real\<close>: the conversion of a 32-bit counter to \<^verbatim>\<open>double\<close> is
    exact, the rounding of the floating-point division and multiplication is not modelled. Every
    concrete value evaluated below is exactly representable, so it is also the value the program
    computes; the stream then prints it with its default six significant digits.
  \<^item> An output file is the list of the rows written so far, a row being the pair of the two
    columns (time in seconds, value); \<^verbatim>\<open>file << time << value << endl\<close> appends one row.
\<close>

type_synonym u32 = "32 word"
type_synonym u64 = "64 word"
type_synonym time = int
type_synonym row = "real \<times> real"

definition Seconds :: "real \<Rightarrow> time" where
  "Seconds s = \<lfloor>s * 1000000000\<rfloor>"

definition MilliSeconds :: "int \<Rightarrow> time" where
  "MilliSeconds ms = ms * 1000000"

definition GetSeconds :: "time \<Rightarrow> real" where
  "GetSeconds t = real_of_int t / 1000000000"

text \<open>\<^verbatim>\<open>Time::GetMilliSeconds\<close> returns an integer: the nanoseconds divided by \<open>10\<^sup>6\<close>,
  truncated towards zero.\<close>

definition GetMilliSeconds :: "time \<Rightarrow> int" where
  "GetMilliSeconds t = sgn t * (\<bar>t\<bar> div 1000000)"

definition PACKET_SIZE :: u32 where
  "PACKET_SIZE = 1500"

definition TCP_SEGMENT_SIZE :: u32 where
  "TCP_SEGMENT_SIZE = 1500"

text \<open>What the program reads from ns-3 objects it does not own: the cumulative byte count of the
  packet sink and the socket of the sending application, each as a function of simulated time.
  \<open>None\<close> is the null \<^verbatim>\<open>Ptr<Socket>\<close>.\<close>

datatype socket = QuicSocketBase | OtherSocket

datatype application = BulkSendApplication | OtherApplication

record env =
  GetTotalRx :: "time \<Rightarrow> u64"
  GetSocket :: "time \<Rightarrow> socket option"

datatype log_entry = LOG_INFO string | LOG_ERROR string

text \<open>The trace notifications ns-3 delivers to connected callbacks: the \<^verbatim>\<open>Tx\<close> source of the
  sender, the \<^verbatim>\<open>Rx\<close> source of the sink, and the \<^verbatim>\<open>CongestionWindow\<close> and \<^verbatim>\<open>RTT\<close> sources
  of the transport socket (old value, new value).\<close>

datatype notification =
    Tx
  | Rx
  | CongestionWindow u32 u32
  | RTT time time

text \<open>The calls a QUIC program passes to \<^verbatim>\<open>Simulator::Schedule\<close>, and the invocation of
  the connected callbacks by a notification.\<close>

datatype event =
    AttachTracesEv application
  | TraceMetricsEv
  | CalculatePacketLossEv
  | Notify notification

section \<open>The QUIC programs (quicbbr.cc)\<close>

text \<open>The globals of \<^verbatim>\<open>Point-To-Point/quicbbr.cc\<close>, with the function-local static
  \<^verbatim>\<open>lastTotalRx\<close> of \<^verbatim>\<open>TraceMetrics\<close>, the four output streams, and the number of callbacks
  connected to each trace source of the socket (a notification runs every connected callback, so
  a source connected twice would run the tracer twice). \<open>ns_log\<close> keeps the diagnostics of
  \<^verbatim>\<open>AttachTraces\<close>.\<close>

record globals =
  g_cwnd :: real
  g_rtt :: real
  packetsSent :: u32
  packetsReceived :: u32
  lastTotalRx :: u64
  throughputFile :: "row list"
  rttFile :: "row list"
  cwndFile :: "row list"
  packetLossFile :: "row list"
  cwnd_connected :: nat
  rtt_connected :: nat
  ns_log :: "log_entry list"

definition globals_init :: globals where
  "globals_init = \<lparr> g_cwnd = 0, g_rtt = 0, packetsSent = 0, packetsReceived = 0, lastTotalRx = 0,
     throughputFile = [], rttFile = [], cwndFile = [], packetLossFile = [],
     cwnd_connected = 0, rtt_connected = 0, ns_log = [] \<rparr>"

text \<open>\<^verbatim>\<open>g_cwnd = newCwnd / PACKET_SIZE\<close>: both operands are \<^verbatim>\<open>uint32_t\<close>, so the division is
  the integer one; its result is then converted to \<^verbatim>\<open>double\<close>.\<close>

definition CwndTracer :: "u32 \<Rightarrow> u32 \<Rightarrow> globals \<Rightarrow> globals" where
  "CwndTracer oldCwnd newCwnd s = s\<lparr> g_cwnd := real (unat (newCwnd div PACKET_SIZE)) \<rparr>"

definition RttTracer :: "time \<Rightarrow> time \<Rightarrow> globals \<Rightarrow> globals" where
  "RttTracer oldRtt newRtt s = s\<lparr> g_rtt := GetSeconds newRtt \<rparr>"

definition PacketSentCallback :: "globals \<Rightarrow> globals" where
  "PacketSentCallback s = s\<lparr> packetsSent := packetsSent s + 1 \<rparr>"

definition PacketReceivedCallback :: "globals \<Rightarrow> globals" where
  "PacketReceivedCallback s = s\<lparr> packetsReceived := packetsReceived s + 1 \<rparr>"

text \<open>The expression
  \<^verbatim>\<open>((packetsSent - packetsReceived) / static_cast<double>(packetsSent)) * 100\<close>:
  the subtraction is done on \<^verbatim>\<open>uint32_t\<close> before the conversion.\<close>

definition packetLoss :: "u32 \<Rightarrow> u32 \<Rightarrow> real" where
  "packetLoss sent received = (real (unat (sent - received)) / real (unat sent)) * 100"

text \<open>A handler returns the new globals and the calls it passed to \<^verbatim>\<open>Simulator::Schedule\<close>,
  each with its delay. \<^verbatim>\<open>CalculatePacketLoss\<close> of the point-to-point, mesh, ring and star QUIC
  programs writes nothing when no packet was sent.\<close>

definition CalculatePacketLoss :: "time \<Rightarrow> globals \<Rightarrow> globals \<times> (time \<times> event) list" where
  "CalculatePacketLoss now s =
     (let time = GetSeconds now;
          s' = (if packetsSent s > 0
                then s\<lparr> packetLossFile :=
                       packetLossFile s @ [(time, packetLoss (packetsSent s) (packetsReceived s))] \<rparr>
                else s)
      in (s', [(Seconds 1.0, CalculatePacketLossEv)]))"

text \<open>\<^verbatim>\<open>Bus/quicbbr.cc\<close> has no \<^verbatim>\<open>Rx\<close> callback: its \<^verbatim>\<open>CalculatePacketLoss\<close> first
  overwrites \<^verbatim>\<open>packetsReceived\<close> with the sink's byte count divided by the packet size (a 64-bit
  division, narrowed to 32 bits by the assignment), and writes a row of \<open>0.0\<close> when no packet was
  sent.\<close>

definition CalculatePacketLoss_Bus ::
  "env \<Rightarrow> time \<Rightarrow> globals \<Rightarrow> globals \<times> (time \<times> event) list" where
  "CalculatePacketLoss_Bus e now s =
     (let time = GetSeconds now;
          s1 = s\<lparr> packetsReceived := ucast (GetTotalRx e now div ucast PACKET_SIZE) \<rparr>;
          s' = (if packetsSent s1 > 0
                then s1\<lparr> packetLossFile :=
                       packetLossFile s1 @ [(time, packetLoss (packetsSent s1) (packetsReceived s1))] \<rparr>
                else s1\<lparr> packetLossFile := packetLossFile s1 @ [(time, 0.0)] \<rparr>)
      in (s', [(Seconds 1.0, CalculatePacketLossEv)]))"

text \<open>\<^verbatim>\<open>TraceMetrics\<close>: the throughput is computed from the 64-bit difference of the sink's
  total and the total kept from the previous call.\<close>

definition throughput_of :: "u64 \<Rightarrow> u64 \<Rightarrow> real" where
  "throughput_of totalRx lastRx = (real (unat (totalRx - lastRx)) * 8.0) / 1000000"

definition TraceMetrics :: "env \<Rightarrow> time \<Rightarrow> globals \<Rightarrow> globals \<times> (time \<times> event) list" where
  "TraceMetrics e now s =
     (let timeInSeconds = GetSeconds now;
          totalRx = GetTotalRx e now;
          throughput = throughput_of totalRx (lastTotalRx s);
          s1 = s\<lparr> lastTotalRx := totalRx \<rparr>;
          s2 = s1\<lparr> throughputFile := throughputFile s1 @ [(timeInSeconds, throughput)] \<rparr>;
          s3 = s2\<lparr> rttFile := rttFile s2 @ [(timeInSeconds, g_rtt s2 * 1000)] \<rparr>;
          s4 = s3\<lparr> cwndFile := cwndFile s3 @ [(timeInSeconds, g_cwnd s3)] \<rparr>
      in (s4, [(Seconds 1.0, TraceMetricsEv)]))"

text \<open>\<^verbatim>\<open>AttachTraces\<close>; \<open>delay\<close> is the retry delay of the program: \<^verbatim>\<open>Seconds(0.1)\<close> in the
  point-to-point, bus, ring and star programs, \<^verbatim>\<open>Seconds(0.2)\<close> in the mesh program.\<close>

definition AttachTraces ::
  "time \<Rightarrow> env \<Rightarrow> time \<Rightarrow> application \<Rightarrow> globals \<Rightarrow> globals \<times> (time \<times> event) list" where
  "AttachTraces delay e now app s =
     (case app of
        BulkSendApplication \<Rightarrow>
          (case GetSocket e now of
             Some socket \<Rightarrow>
               (case socket of
                  QuicSocketBase \<Rightarrow>
                    (s\<lparr> cwnd_connected := cwnd_connected s + 1,
                        rtt_connected := rtt_connected s + 1,
                        ns_log := ns_log s @ [LOG_INFO ''Successfully attached traces for cwnd and RTT.''] \<rparr>,
                     [])
                | OtherSocket \<Rightarrow>
                    (s\<lparr> ns_log := ns_log s @ [LOG_INFO ''Socket not available yet, retrying...''] \<rparr>,
                     [(delay, AttachTracesEv app)]))
           | None \<Rightarrow>
               (s\<lparr> ns_log := ns_log s @ [LOG_INFO ''Socket is null, retrying...''] \<rparr>,
                [(delay, AttachTracesEv app)]))
      | OtherApplication \<Rightarrow>
          (s\<lparr> ns_log := ns_log s @ [LOG_ERROR ''Failed to get BulkSendApplication.''] \<rparr>, []))"

section \<open>The TCP programs (tcpcubic.cc)\<close>

text \<open>\<^verbatim>\<open>Point-To-Point/tcpcubic.cc\<close> keeps \<^verbatim>\<open>lastTotalRx\<close>, the two packet counters and the
  four streams as globals; it has no \<^verbatim>\<open>g_cwnd\<close> and no \<^verbatim>\<open>g_rtt\<close>, and its tracers write
  their row at once. Its handlers run on the same record and leave the fields it does not have
  alone. \<open>period\<close> is the delay of the self-rescheduling: \<^verbatim>\<open>MilliSeconds(100)\<close> in the
  point-to-point, mesh and star programs, \<^verbatim>\<open>Seconds(1.0)\<close> in the bus program.\<close>

datatype tcp_event =
    TraceCwndEv
  | TraceRttEv
  | findThroughputEv
  | CalculatePacketLossTcpEv
  | NotifyTcp notification

definition CwndChange :: "time \<Rightarrow> u32 \<Rightarrow> u32 \<Rightarrow> globals \<Rightarrow> globals" where
  "CwndChange now oldCwnd newCwnd s =
     (let time = GetSeconds now;
          cwndInPackets = real (unat (newCwnd div TCP_SEGMENT_SIZE))
      in s\<lparr> cwndFile := cwndFile s @ [(time, cwndInPackets)] \<rparr>)"

definition RttChange :: "time \<Rightarrow> time \<Rightarrow> time \<Rightarrow> globals \<Rightarrow> globals" where
  "RttChange now oldRtt newRtt s =
     (let time = GetSeconds now
      in s\<lparr> rttFile := rttFile s @ [(time, real_of_int (GetMilliSeconds newRtt))] \<rparr>)"

definition findThroughput ::
  "time \<Rightarrow> env \<Rightarrow> time \<Rightarrow> globals \<Rightarrow> globals \<times> (time \<times> tcp_event) list" where
  "findThroughput period e now s =
     (let time = GetSeconds now;
          currentThroughput = throughput_of (GetTotalRx e now) (lastTotalRx s);
          s1 = s\<lparr> throughputFile := throughputFile s @ [(time, currentThroughput)] \<rparr>;
          s2 = s1\<lparr> lastTotalRx := GetTotalRx e now \<rparr>
      in (s2, [(period, findThroughputEv)]))"

definition CalculatePacketLoss_tcp ::
  "time \<Rightarrow> time \<Rightarrow> globals \<Rightarrow> globals \<times> (time \<times> tcp_event) list" where
  "CalculatePacketLoss_tcp period now s =
     (let time = GetSeconds now;
          s' = (if packetsSent s > 0
                then s\<lparr> packetLossFile :=
                       packetLossFile s @ [(time, packetLoss (packetsSent s) (packetsReceived s))] \<rparr>
                else s\<lparr> packetLossFile := packetLossFile s @ [(time, 0.0)] \<rparr>)
      in (s', [(period, CalculatePacketLossTcpEv)]))"

section \<open>The event loop\<close>

text \<open>The simulator is the collaborator the programs schedule their callbacks on. Its event list
  is ordered by time, and events of one time run in the order they were scheduled:
  \<open>Insert\<close> puts an event behind every event that is not later. \<^verbatim>\<open>Simulator::Stop\<close> schedules
  the event that ends the run; \<^verbatim>\<open>Simulator::Run\<close> processes events while there is one and
  the run is not stopped. \<open>Run\<close> processes at most the given number of events.\<close>

datatype 'e sim_event = Stop | Call 'e

record ('e, 's) simulator =
  Now :: time
  events :: "(time \<times> 'e sim_event) list"
  stop :: bool
  state :: 's

fun Insert :: "time \<times> 'a \<Rightarrow> (time \<times> 'a) list \<Rightarrow> (time \<times> 'a) list" where
  "Insert x [] = [x]"
| "Insert x (y # ys) = (if fst x < fst y then x # y # ys else y # Insert x ys)"

definition Schedule :: "time \<times> 'e \<Rightarrow> ('e, 's) simulator \<Rightarrow> ('e, 's) simulator" where
  "Schedule c w = w\<lparr> events := Insert (Now w + fst c, Call (snd c)) (events w) \<rparr>"

definition Simulator_Stop :: "time \<Rightarrow> ('e, 's) simulator \<Rightarrow> ('e, 's) simulator" where
  "Simulator_Stop delay w = w\<lparr> events := Insert (Now w + delay, Stop) (events w) \<rparr>"

definition ProcessOneEvent ::
  "(time \<Rightarrow> 'e \<Rightarrow> 's \<Rightarrow> 's \<times> (time \<times> 'e) list) \<Rightarrow> ('e, 's) simulator \<Rightarrow> ('e, 's) simulator" where
  "ProcessOneEvent handler w =
     (case events w of
        [] \<Rightarrow> w
      | (t, ev) # rest \<Rightarrow>
          (case ev of
             Stop \<Rightarrow> w\<lparr> Now := t, events := rest, stop := True \<rparr>
           | Call c \<Rightarrow>
               fold Schedule (snd (handler t c (state w)))
                 (w\<lparr> Now := t, events := rest, state := fst (handler t c (state w)) \<rparr>)))"

fun Run ::
  "(time \<Rightarrow> 'e \<Rightarrow> 's \<Rightarrow> 's \<times> (time \<times> 'e) list) \<Rightarrow> nat \<Rightarrow> ('e, 's) simulator \<Rightarrow> ('e, 's) simulator" where
  "Run handler 0 w = w"
| "Run handler (Suc n) w =
     (if events w \<noteq> [] \<and> \<not> stop w then Run handler n (ProcessOneEvent handler w) else w)"

text \<open>The notifications of a run are given with their times; in the event list they stand
  behind the program's own events of the same time.\<close>

definition notify_at :: "('n \<Rightarrow> 'e) \<Rightarrow> time \<times> 'n \<Rightarrow> ('e, 's) simulator \<Rightarrow> ('e, 's) simulator" where
  "notify_at wrap x w = w\<lparr> events := Insert (fst x, Call (wrap (snd x))) (events w) \<rparr>"

subsection \<open>Dispatch and main of the QUIC program\<close>

text \<open>A notification of the socket runs each connected tracer; the \<^verbatim>\<open>Tx\<close> and \<^verbatim>\<open>Rx\<close>
  sources are connected once, in \<^verbatim>\<open>main\<close>. Of \<^verbatim>\<open>main\<close> the model keeps the calls that
  schedule the pipeline and the end of the run; building the topology and starting and stopping
  the applications is ns-3's part, and reaches the pipeline as notifications.\<close>

definition deliver :: "notification \<Rightarrow> globals \<Rightarrow> globals" where
  "deliver n s =
     (case n of
        Tx \<Rightarrow> PacketSentCallback s
      | Rx \<Rightarrow> PacketReceivedCallback s
      | CongestionWindow oldCwnd newCwnd \<Rightarrow> (CwndTracer oldCwnd newCwnd ^^ cwnd_connected s) s
      | RTT oldRtt newRtt \<Rightarrow> (RttTracer oldRtt newRtt ^^ rtt_connected s) s)"

definition quic_handler ::
  "time \<Rightarrow> env \<Rightarrow> time \<Rightarrow> event \<Rightarrow> globals \<Rightarrow> globals \<times> (time \<times> event) list" where
  "quic_handler delay e now ev s =
     (case ev of
        AttachTracesEv app \<Rightarrow> AttachTraces delay e now app s
      | TraceMetricsEv \<Rightarrow> TraceMetrics e now s
      | CalculatePacketLossEv \<Rightarrow> CalculatePacketLoss now s
      | Notify n \<Rightarrow> (deliver n s, []))"

definition DURATION :: real where
  "DURATION = 100.0"

definition quic_main :: "application \<Rightarrow> (time \<times> notification) list \<Rightarrow> (event, globals) simulator" where
  "quic_main app ns =
     (let w0 = \<lparr> Now = 0, events = [], stop = False, state = globals_init \<rparr>;
          w1 = Schedule (Seconds 0.1, AttachTracesEv app) w0;
          w2 = Schedule (Seconds 1.0, TraceMetricsEv) w1;
          w3 = Schedule (Seconds 1.0, CalculatePacketLossEv) w2;
          w4 = Simulator_Stop (Seconds DURATION) w3
      in fold (notify_at Notify) ns w4)"

subsection \<open>Dispatch and main of the TCP program\<close>

text \<open>\<^verbatim>\<open>TraceCwnd\<close> and \<^verbatim>\<open>TraceRtt\<close> connect the tracers through the configuration path;
  they change no global and schedule nothing. A socket notification of the TCP program stands
  for one invocation of the connected tracer.\<close>

definition deliver_tcp :: "time \<Rightarrow> notification \<Rightarrow> globals \<Rightarrow> globals" where
  "deliver_tcp now n s =
     (case n of
        Tx \<Rightarrow> PacketSentCallback s
      | Rx \<Rightarrow> PacketReceivedCallback s
      | CongestionWindow oldCwnd newCwnd \<Rightarrow> CwndChange now oldCwnd newCwnd s
      | RTT oldRtt newRtt \<Rightarrow> RttChange now oldRtt newRtt s)"

definition tcp_handler ::
  "time \<Rightarrow> env \<Rightarrow> time \<Rightarrow> tcp_event \<Rightarrow> globals \<Rightarrow> globals \<times> (time \<times> tcp_event) list" where
  "tcp_handler period e now ev s =
     (case ev of
        TraceCwndEv \<Rightarrow> (s, [])
      | TraceRttEv \<Rightarrow> (s, [])
      | findThroughputEv \<Rightarrow> findThroughput period e now s
      | CalculatePacketLossTcpEv \<Rightarrow> CalculatePacketLoss_tcp period now s
      | NotifyTcp n \<Rightarrow> (deliver_tcp now n s, []))"

definition tcp_main :: "(time \<times> notification) list \<Rightarrow> (tcp_event, globals) simulator" where
  "tcp_main ns =
     (let w0 = \<lparr> Now = 0, events = [], stop = False, state = globals_init \<rparr>;
          w1 = Schedule (Seconds 0.01, TraceCwndEv) w0;
          w2 = Schedule (Seconds 0.01, TraceRttEv) w1;
          w3 = Schedule (Seconds 1.0, findThroughputEv) w2;
          w4 = Schedule (Seconds 1.0, CalculatePacketLossTcpEv) w3;
          w5 = Simulator_Stop (Seconds DURATION) w4
      in fold (notify_at NotifyTcp) ns w5)"

section \<open>The loss ratio of the specification\<close>

text \<open>The specification's own definition, kept apart from the program's expression
  \<open>packetLoss\<close>: \<^verbatim>\<open>LossRatio(flow) = max(0, sent - received) / sent\<close> when \<^verbatim>\<open>sent > 0\<close>, else 0,
  on unbounded counts. The program reports it as a percentage.\<close>

definition LossRatio :: "nat \<Rightarrow> nat \<Rightarrow> real" where
  "LossRatio sent received =
     (if sent > 0 then max 0 (real sent - real received) / real sent else 0)"

text \<open>An environment in which nothing is ever received and no socket exists, for evaluating
  runs.\<close>

definition idle_env :: env where
  "idle_env = \<lparr> GetTotalRx = (\<lambda>t. 0), GetSocket = (\<lambda>t. None) \<rparr>"

text \<open>A sink that has received 1250000 bytes by \<open>t = 1\<close> and 2500000 bytes by \<open>t = 2\<close>.\<close>

definition sink_10Mbps :: env where
  "sink_10Mbps = \<lparr> GetTotalRx = (\<lambda>t. if t < Seconds 1 then 0 else if t < Seconds 2 then 1250000
                                      else 2500000),
                    GetSocket = (\<lambda>t. None) \<rparr>"

text \<open>A socket that exists from the start, and one that is created 0.35 s into the run.\<close>

definition ready_socket :: env where
  "ready_socket = \<lparr> GetTotalRx = (\<lambda>t. 0), GetSocket = (\<lambda>t. Some QuicSocketBase) \<rparr>"

definition late_socket :: env where
  "late_socket = \<lparr> GetTotalRx = (\<lambda>t. 0),
                    GetSocket = (\<lambda>t. if t < 350000000 then None else Some QuicSocketBase) \<rparr>"

section \<open>Auxiliary notions for the runs\<close>

text \<open>The handlers of the point-to-point and of the mesh QUIC program, with their retry
  delays.\<close>

definition quic_p2p_handler :: "env \<Rightarrow> time \<Rightarrow> event \<Rightarrow> globals \<Rightarrow> globals \<times> (time \<times> event) list" where
  "quic_p2p_handler = quic_handler (Seconds 0.1)"

definition quic_mesh_handler :: "env \<Rightarrow> time \<Rightarrow> event \<Rightarrow> globals \<Rightarrow> globals \<times> (time \<times> event) list" where
  "quic_mesh_handler = quic_handler (Seconds 0.2)"

text \<open>The times at which a given call is waiting in the event list.\<close>

definition pending :: "'e \<Rightarrow> (time \<times> 'e sim_event) list \<Rightarrow> time list" where
  "pending c q = map fst (filter (\<lambda>x. snd x = Call c) q)"

text \<open>The retry loop on its own: a simulator whose only event is the first attempt, scheduled
  as \<^verbatim>\<open>main\<close> schedules it. \<open>retry_line\<close> is the diagnostic of a failed attempt.\<close>

definition attach_only :: "time \<Rightarrow> globals \<Rightarrow> (event, globals) simulator" where
  "attach_only delay0 s =
     Schedule (delay0, AttachTracesEv BulkSendApplication)
       \<lparr> Now = 0, events = [], stop = False, state = s \<rparr>"

definition retry_line :: "socket option \<Rightarrow> log_entry" where
  "retry_line sock =
     (case sock of
        None \<Rightarrow> LOG_INFO ''Socket is null, retrying...''
      | Some _ \<Rightarrow> LOG_INFO ''Socket not available yet, retrying...'')"

text \<open>Either the attachment is still being attempted (nothing connected, one attempt waiting)
  or it has succeeded (each tracer connected once, no attempt waiting).\<close>

definition attach_inv :: "(event, globals) simulator \<Rightarrow> bool" where
  "attach_inv w \<longleftrightarrow>
     (cwnd_connected (state w) = 0 \<and> rtt_connected (state w) = 0
        \<and> length (pending (AttachTracesEv BulkSendApplication) (events w)) = 1)
     \<or> (cwnd_connected (state w) = 1 \<and> rtt_connected (state w) = 1
        \<and> pending (AttachTracesEv BulkSendApplication) (events w) = [])"

text \<open>The times, in seconds, of the first \<open>m\<close> ticks of a sampler that starts at 1 s and
  reschedules itself every second.\<close>

definition tick_times :: "nat \<Rightarrow> real list" where
  "tick_times m = map (\<lambda>k. real (Suc k)) [0..<m]"

section \<open>Arithmetic of the reported values\<close>

lemma Seconds_simps:
  "Seconds 1.0 = 1000000000" "Seconds 0.1 = 100000000" "Seconds 0.2 = 200000000"
  "Seconds 0.01 = 10000000" "Seconds 1 = 1000000000" "Seconds 2 = 2000000000"
  by (simp_all add: Seconds_def)

lemma GetSeconds_simps:
  "GetSeconds 1000000000 = 1" "GetSeconds 2000000000 = 2" "GetSeconds 0 = 0"
  by (simp_all add: GetSeconds_def)

lemma pct_le: "(a::real) \<le> 1 \<Longrightarrow> a * 100 \<le> 100"
  by simp

lemma pct_ge: "(0::real) \<le> a \<Longrightarrow> 0 \<le> a * 100"
  by simp

lemma pct_gt: "(1::real) < a \<Longrightarrow> 100 < a * 100"
  by simp

lemma unat_pos: "0 < w \<Longrightarrow> 0 < unat w"
  by (simp add: word_less_nat_alt)

lemma packetLoss_le:
  assumes "received \<le> sent"
  shows "packetLoss sent received = (real (unat sent) - real (unat received)) / real (unat sent) * 100"
proof -
  have "unat (sent - received) = unat sent - unat received" "unat received \<le> unat sent"
    using assms by (simp_all add: unat_sub word_le_nat_alt)
  then have "real (unat (sent - received)) = real (unat sent) - real (unat received)"
    by (simp only: of_nat_diff)
  then show ?thesis by (simp only: packetLoss_def)
qed

lemma packetLoss_LossRatio:
  assumes "received \<le> sent" "0 < sent"
  shows "packetLoss sent received = LossRatio (unat sent) (unat received) * 100"
proof -
  have "unat received \<le> unat sent" using assms(1) by (simp add: word_le_nat_alt)
  then have "max 0 (real (unat sent) - real (unat received)) = real (unat sent) - real (unat received)"
    by (simp del: of_nat_unat)
  then show ?thesis
    using unat_pos [OF assms(2)] by (simp only: packetLoss_le [OF assms(1)] LossRatio_def if_True)
qed

lemma LossRatio_range: "0 \<le> LossRatio sent received * 100 \<and> LossRatio sent received * 100 \<le> 100"
proof (cases "sent > 0")
  case True
  have "max 0 (real sent - real received) \<le> real sent" by simp
  then have "max 0 (real sent - real received) / real sent \<le> 1"
    using True by (simp add: divide_le_eq_1)
  moreover have "0 \<le> max 0 (real sent - real received) / real sent" by simp
  ultimately show ?thesis using True pct_le pct_ge by (simp only: LossRatio_def if_True)
next
  case False
  then show ?thesis by (simp add: LossRatio_def)
qed

lemma packetLoss_mod:
  "packetLoss sent received =
     real_of_int ((uint sent - uint received) mod 2 ^ 32) / real (unat sent) * 100"
proof -
  have "int (unat (sent - received)) = (uint sent - uint received) mod 2 ^ 32"
    by (simp add: uint_word_ariths flip: uint_nat)
  then have "real (unat (sent - received)) = real_of_int ((uint sent - uint received) mod 2 ^ 32)"
    by (metis of_int_of_nat_eq)
  then show ?thesis by (simp only: packetLoss_def)
qed

lemma unat_wrap:
  fixes sent received :: u32
  assumes "sent < received"
  shows "unat (sent - received) = 2 ^ 32 + unat sent - unat received"
proof -
  have lt: "uint sent < uint received" using assms by (simp add: word_less_def)
  have "uint (sent - received) = uint sent - uint received + 2 ^ 32"
    using lt by (simp add: uint_sub_if')
  then have "int (unat (sent - received)) = int (unat sent) - int (unat received) + 2 ^ 32"
    by (simp only: uint_nat)
  moreover have "unat received < 2 ^ 32" using unsigned_less [of received, where 'a = nat] by simp
  ultimately have "int (unat (sent - received)) = int (2 ^ 32 + unat sent - unat received)"
    by (simp add: of_nat_diff)
  then show ?thesis by (simp only: of_nat_eq_iff)
qed

lemma packetLoss_wrapped:
  fixes sent received :: u32
  assumes "sent < received" "0 < sent"
  shows "packetLoss sent received =
           (2 ^ 32 - (real (unat received) - real (unat sent))) / real (unat sent) * 100"
    and "100 < packetLoss sent received"
proof -
  have r: "unat received < 2 ^ 32" using unsigned_less [of received, where 'a = nat] by simp
  have lt: "unat sent < unat received" using assms(1) by (simp add: word_less_nat_alt)
  have u: "unat (sent - received) = 2 ^ 32 + unat sent - unat received"
    by (rule unat_wrap [OF assms(1)])
  have "real (2 ^ 32 + unat sent - unat received) = 2 ^ 32 - (real (unat received) - real (unat sent))"
    using r lt by (simp add: of_nat_diff del: of_nat_unat)
  then show "packetLoss sent received =
           (2 ^ 32 - (real (unat received) - real (unat sent))) / real (unat sent) * 100"
    by (simp only: packetLoss_def u)
  have "unat sent < unat (sent - received)" using r lt u by linarith
  then have "real (unat sent) < real (unat (sent - received))" by (simp only: of_nat_less_iff)
  then have "1 < real (unat (sent - received)) / real (unat sent)"
    using unat_pos [OF assms(2)] by (simp del: of_nat_unat)
  then show "100 < packetLoss sent received" unfolding packetLoss_def by (rule pct_gt)
qed

lemma packetLoss_1_2: "packetLoss 1 2 = 429496729500"
  by (simp add: packetLoss_def unsigned_minus_1_eq_mask mask_eq_exp_minus_1)

lemma cwnd_floor: "real (unat (b div PACKET_SIZE)) = real_of_int \<lfloor>real (unat b) / 1500\<rfloor>"
proof -
  have "unat (b div PACKET_SIZE) = unat b div 1500"
    by (simp add: PACKET_SIZE_def unat_div)
  then show ?thesis
    by (metis floor_divide_of_nat_eq of_int_of_nat_eq of_nat_numeral)
qed


lemma throughput_of_mono:
  assumes "lastRx \<le> totalRx"
  shows "throughput_of totalRx lastRx = (real (unat totalRx) - real (unat lastRx)) * 8 / 1000000"
proof -
  have "unat (totalRx - lastRx) = unat totalRx - unat lastRx" "unat lastRx \<le> unat totalRx"
    using assms by (simp_all add: unat_sub word_le_nat_alt)
  then have "real (unat (totalRx - lastRx)) = real (unat totalRx) - real (unat lastRx)"
    by (simp only: of_nat_diff)
  then show ?thesis by (simp add: throughput_of_def del: of_nat_unat)
qed

lemma TraceMetrics_throughput:
  "throughputFile (fst (TraceMetrics e now s)) =
     throughputFile s @ [(GetSeconds now, throughput_of (GetTotalRx e now) (lastTotalRx s))]"
  "lastTotalRx (fst (TraceMetrics e now s)) = GetTotalRx e now"
  by (simp_all add: TraceMetrics_def Let_def)

lemma findThroughput_throughput:
  "throughputFile (fst (findThroughput period e now s)) =
     throughputFile s @ [(GetSeconds now, throughput_of (GetTotalRx e now) (lastTotalRx s))]"
  "lastTotalRx (fst (findThroughput period e now s)) = GetTotalRx e now"
  by (simp_all add: findThroughput_def Let_def)

lemma CwndTracer_funpow:
  "(CwndTracer a b ^^ k) s = (if k = 0 then s else CwndTracer a b s)"
  by (induction k) (auto simp: CwndTracer_def)

lemma RttTracer_funpow:
  "(RttTracer a b ^^ k) s = (if k = 0 then s else RttTracer a b s)"
  by (induction k) (auto simp: RttTracer_def)

section \<open>Loss ratio\<close>

lemma run_one_sent_two_received:
  "packetLossFile (state (Run (quic_handler (Seconds 0.1) ready_socket) 6
       (quic_main BulkSendApplication [(500000000, Tx), (600000000, Rx), (700000000, Rx)])))
     = [(1, 429496729500)]"
  by (simp add: eval_nat_numeral quic_main_def Let_def Schedule_def Simulator_Stop_def notify_at_def
        Seconds_def DURATION_def ProcessOneEvent_def quic_handler_def AttachTraces_def
        ready_socket_def deliver_def PacketSentCallback_def PacketReceivedCallback_def
        TraceMetrics_def CalculatePacketLoss_def GetSeconds_def globals_init_def packetLoss_1_2)

text \<open>
  C1 (as stated): at every tick with \<open>sent > 0\<close> the emitted loss is
  \<open>max(0, sent - received) / sent\<close> as a percentage, in \<open>[0, 100]\<close>, for all counter values,
  also \<open>received > sent\<close>. The program has no clamp: with one packet sent and two received the
  tick of the QUIC program writes 429496729500, where the specification's ratio is 0. The run
  of \<^verbatim>\<open>main\<close> with one \<^verbatim>\<open>Tx\<close> and two \<^verbatim>\<open>Rx\<close> notifications before the first tick writes
  that row.
\<close>

theorem loss_ratio_unclamped:
  "packetLossFile (fst (CalculatePacketLoss (Seconds 1)
       (globals_init\<lparr> packetsSent := 1, packetsReceived := 2 \<rparr>))) = [(1, 429496729500)]
   \<and> packetLossFile (state (Run (quic_handler (Seconds 0.1) ready_socket) 6
       (quic_main BulkSendApplication [(500000000, Tx), (600000000, Rx), (700000000, Rx)])))
     = [(1, 429496729500)]
   \<and> LossRatio 1 2 * 100 = 0 \<and> \<not> (429496729500 \<le> (100::real))"
  using run_one_sent_two_received
  by (simp add: CalculatePacketLoss_def Seconds_simps GetSeconds_simps globals_init_def
        packetLoss_1_2 LossRatio_def del: Run.simps)

text \<open>
  C1 (amended): at every tick with \<open>sent > 0\<close> and \<open>received \<le> sent\<close>, the row written by
  \<^verbatim>\<open>CalculatePacketLoss\<close> (QUIC and TCP program) carries the specification's loss ratio as a
  percentage, and that value lies in \<open>[0, 100]\<close>.
\<close>

theorem loss_ratio_in_range:
  assumes "0 < packetsSent s" and "packetsReceived s \<le> packetsSent s"
  shows "packetLossFile (fst (CalculatePacketLoss now s)) =
           packetLossFile s @
             [(GetSeconds now, LossRatio (unat (packetsSent s)) (unat (packetsReceived s)) * 100)]
       \<and> packetLossFile (fst (CalculatePacketLoss_tcp period now s)) =
           packetLossFile s @
             [(GetSeconds now, LossRatio (unat (packetsSent s)) (unat (packetsReceived s)) * 100)]
       \<and> 0 \<le> LossRatio (unat (packetsSent s)) (unat (packetsReceived s)) * 100
       \<and> LossRatio (unat (packetsSent s)) (unat (packetsReceived s)) * 100 \<le> 100"
  using assms LossRatio_range [of "unat (packetsSent s)" "unat (packetsReceived s)"]
  by (simp add: CalculatePacketLoss_def CalculatePacketLoss_tcp_def packetLoss_LossRatio
        del: of_nat_unat)

theorem loss_ratio_in_range_witness:
  "packetLossFile (fst (CalculatePacketLoss (Seconds 1)
       (globals_init\<lparr> packetsSent := 100, packetsReceived := 95 \<rparr>))) = [(1, 5)]
   \<and> packetLossFile (fst (CalculatePacketLoss_tcp (MilliSeconds 100) (Seconds 1)
       (globals_init\<lparr> packetsSent := 100, packetsReceived := 95 \<rparr>))) = [(1, 5)]"
  using loss_ratio_in_range [where s = "globals_init\<lparr> packetsSent := 100, packetsReceived := 95 \<rparr>"
      and now = "Seconds 1" and period = "MilliSeconds 100"]
  by (simp add: globals_init_def Seconds_simps GetSeconds_simps LossRatio_def)

lemma CalculatePacketLoss_Bus_row:
  assumes "0 < packetsSent s"
  shows "packetsReceived (fst (CalculatePacketLoss_Bus e now s))
           = ucast (GetTotalRx e now div ucast PACKET_SIZE)"
    and "packetsSent (fst (CalculatePacketLoss_Bus e now s)) = packetsSent s"
    and "packetLossFile (fst (CalculatePacketLoss_Bus e now s)) =
           packetLossFile s @
             [(GetSeconds now,
               packetLoss (packetsSent s) (packetsReceived (fst (CalculatePacketLoss_Bus e now s))))]"
  using assms by (simp_all add: CalculatePacketLoss_Bus_def Let_def)

text \<open>
  C10: the difference \<open>sent - received\<close> is taken in unsigned 32-bit arithmetic before the
  conversion to a real number. At every tick with \<open>sent > 0\<close> and \<open>received > sent\<close> the row
  written is \<open>((sent - received) mod 2\<^sup>3\<^sup>2) / sent * 100\<close>, that is
  \<open>(2\<^sup>3\<^sup>2 - (received - sent)) / sent * 100\<close>: above 100, neither negative nor clamped. In the
  point-to-point QUIC program and in the TCP program \<open>received\<close> is the counter as the tick
  finds it. The tick of the bus program first overwrites the counter with the sink's byte count
  divided by the packet size, whatever it held before, so there \<open>received\<close> is the counter as
  the tick leaves it.
\<close>

theorem loss_difference_wraps:
  assumes "0 < packetsSent s"
  shows "(packetsSent s < packetsReceived s \<longrightarrow>
           packetLossFile (fst (CalculatePacketLoss now s)) =
             packetLossFile s @
               [(GetSeconds now,
                 real_of_int ((uint (packetsSent s) - uint (packetsReceived s)) mod 2 ^ 32)
                   / real (unat (packetsSent s)) * 100)]
         \<and> packetLossFile (fst (CalculatePacketLoss_tcp period now s)) =
             packetLossFile s @
               [(GetSeconds now,
                 real_of_int ((uint (packetsSent s) - uint (packetsReceived s)) mod 2 ^ 32)
                   / real (unat (packetsSent s)) * 100)]
         \<and> real_of_int ((uint (packetsSent s) - uint (packetsReceived s)) mod 2 ^ 32)
                   / real (unat (packetsSent s)) * 100
             = (2 ^ 32 - (real (unat (packetsReceived s)) - real (unat (packetsSent s))))
                   / real (unat (packetsSent s)) * 100
         \<and> 100 < real_of_int ((uint (packetsSent s) - uint (packetsReceived s)) mod 2 ^ 32)
                   / real (unat (packetsSent s)) * 100)
       \<and> packetsReceived (fst (CalculatePacketLoss_Bus e now s))
           = ucast (GetTotalRx e now div ucast PACKET_SIZE)
       \<and> (packetsSent s < packetsReceived (fst (CalculatePacketLoss_Bus e now s)) \<longrightarrow>
           packetLossFile (fst (CalculatePacketLoss_Bus e now s)) =
             packetLossFile s @
               [(GetSeconds now,
                 real_of_int ((uint (packetsSent s)
                     - uint (packetsReceived (fst (CalculatePacketLoss_Bus e now s)))) mod 2 ^ 32)
                   / real (unat (packetsSent s)) * 100)]
         \<and> real_of_int ((uint (packetsSent s)
                     - uint (packetsReceived (fst (CalculatePacketLoss_Bus e now s)))) mod 2 ^ 32)
                   / real (unat (packetsSent s)) * 100
             = (2 ^ 32 - (real (unat (packetsReceived (fst (CalculatePacketLoss_Bus e now s))))
                          - real (unat (packetsSent s))))
                   / real (unat (packetsSent s)) * 100
         \<and> 100 < real_of_int ((uint (packetsSent s)
                     - uint (packetsReceived (fst (CalculatePacketLoss_Bus e now s)))) mod 2 ^ 32)
                   / real (unat (packetsSent s)) * 100)"
proof -
  have 1: "packetLossFile (fst (CalculatePacketLoss now s)) =
           packetLossFile s @ [(GetSeconds now, packetLoss (packetsSent s) (packetsReceived s))]"
    using assms by (simp add: CalculatePacketLoss_def)
  have 2: "packetLossFile (fst (CalculatePacketLoss_tcp period now s)) =
           packetLossFile s @ [(GetSeconds now, packetLoss (packetsSent s) (packetsReceived s))]"
    using assms by (simp add: CalculatePacketLoss_tcp_def)
  have a: "packetsSent s < packetsReceived s \<longrightarrow>
           packetLossFile (fst (CalculatePacketLoss now s)) =
             packetLossFile s @
               [(GetSeconds now,
                 real_of_int ((uint (packetsSent s) - uint (packetsReceived s)) mod 2 ^ 32)
                   / real (unat (packetsSent s)) * 100)]
         \<and> packetLossFile (fst (CalculatePacketLoss_tcp period now s)) =
             packetLossFile s @
               [(GetSeconds now,
                 real_of_int ((uint (packetsSent s) - uint (packetsReceived s)) mod 2 ^ 32)
                   / real (unat (packetsSent s)) * 100)]
         \<and> real_of_int ((uint (packetsSent s) - uint (packetsReceived s)) mod 2 ^ 32)
                   / real (unat (packetsSent s)) * 100
             = (2 ^ 32 - (real (unat (packetsReceived s)) - real (unat (packetsSent s))))
                   / real (unat (packetsSent s)) * 100
         \<and> 100 < real_of_int ((uint (packetsSent s) - uint (packetsReceived s)) mod 2 ^ 32)
                   / real (unat (packetsSent s)) * 100"
  proof
    assume lt: "packetsSent s < packetsReceived s"
    show "packetLossFile (fst (CalculatePacketLoss now s)) =
             packetLossFile s @
               [(GetSeconds now,
                 real_of_int ((uint (packetsSent s) - uint (packetsReceived s)) mod 2 ^ 32)
                   / real (unat (packetsSent s)) * 100)]
         \<and> packetLossFile (fst (CalculatePacketLoss_tcp period now s)) =
             packetLossFile s @
               [(GetSeconds now,
                 real_of_int ((uint (packetsSent s) - uint (packetsReceived s)) mod 2 ^ 32)
                   / real (unat (packetsSent s)) * 100)]
         \<and> real_of_int ((uint (packetsSent s) - uint (packetsReceived s)) mod 2 ^ 32)
                   / real (unat (packetsSent s)) * 100
             = (2 ^ 32 - (real (unat (packetsReceived s)) - real (unat (packetsSent s))))
                   / real (unat (packetsSent s)) * 100
         \<and> 100 < real_of_int ((uint (packetsSent s) - uint (packetsReceived s)) mod 2 ^ 32)
                   / real (unat (packetsSent s)) * 100"
      using 1 2 packetLoss_wrapped [OF lt assms]
      by (simp only: packetLoss_mod [of "packetsSent s" "packetsReceived s"])
  qed
  let ?r = "packetsReceived (fst (CalculatePacketLoss_Bus e now s))"
  note bus = CalculatePacketLoss_Bus_row [OF assms, of e now]
  have b: "packetsSent s < ?r \<longrightarrow>
           packetLossFile (fst (CalculatePacketLoss_Bus e now s)) =
             packetLossFile s @
               [(GetSeconds now,
                 real_of_int ((uint (packetsSent s) - uint ?r) mod 2 ^ 32)
                   / real (unat (packetsSent s)) * 100)]
         \<and> real_of_int ((uint (packetsSent s) - uint ?r) mod 2 ^ 32)
                   / real (unat (packetsSent s)) * 100
             = (2 ^ 32 - (real (unat ?r) - real (unat (packetsSent s))))
                   / real (unat (packetsSent s)) * 100
         \<and> 100 < real_of_int ((uint (packetsSent s) - uint ?r) mod 2 ^ 32)
                   / real (unat (packetsSent s)) * 100"
  proof
    assume lt: "packetsSent s < ?r"
    show "packetLossFile (fst (CalculatePacketLoss_Bus e now s)) =
             packetLossFile s @
               [(GetSeconds now,
                 real_of_int ((uint (packetsSent s) - uint ?r) mod 2 ^ 32)
                   / real (unat (packetsSent s)) * 100)]
         \<and> real_of_int ((uint (packetsSent s) - uint ?r) mod 2 ^ 32)
                   / real (unat (packetsSent s)) * 100
             = (2 ^ 32 - (real (unat ?r) - real (unat (packetsSent s))))
                   / real (unat (packetsSent s)) * 100
         \<and> 100 < real_of_int ((uint (packetsSent s) - uint ?r) mod 2 ^ 32)
                   / real (unat (packetsSent s)) * 100"
      using bus(3) packetLoss_wrapped [OF lt assms]
      by (simp only: packetLoss_mod [of "packetsSent s" ?r])
  qed
  show ?thesis using a bus(1) b by blast
qed

theorem loss_difference_wraps_witness:
  "packetLossFile (fst (CalculatePacketLoss (Seconds 1)
       (globals_init\<lparr> packetsSent := 1, packetsReceived := 2 \<rparr>))) = [(1, 429496729500)]
   \<and> packetLossFile (fst (CalculatePacketLoss_tcp (MilliSeconds 100) (Seconds 1)
       (globals_init\<lparr> packetsSent := 1, packetsReceived := 2 \<rparr>))) = [(1, 429496729500)]
   \<and> packetsReceived (fst (CalculatePacketLoss_Bus
       \<lparr> GetTotalRx = (\<lambda>t. 3000), GetSocket = (\<lambda>t. None) \<rparr> (Seconds 1)
       (globals_init\<lparr> packetsSent := 1 \<rparr>))) = 2
   \<and> packetLossFile (fst (CalculatePacketLoss_Bus
       \<lparr> GetTotalRx = (\<lambda>t. 3000), GetSocket = (\<lambda>t. None) \<rparr> (Seconds 1)
       (globals_init\<lparr> packetsSent := 1 \<rparr>))) = [(1, 429496729500)]
   \<and> (100 :: real) < 429496729500"
  using loss_difference_wraps [where s = "globals_init\<lparr> packetsSent := 1, packetsReceived := 2 \<rparr>"
      and e = "\<lparr> GetTotalRx = (\<lambda>t. 3000), GetSocket = (\<lambda>t. None) \<rparr>"
      and now = "Seconds 1" and period = "MilliSeconds 100"]
    loss_difference_wraps [where s = "globals_init\<lparr> packetsSent := 1 \<rparr>"
      and e = "\<lparr> GetTotalRx = (\<lambda>t. 3000), GetSocket = (\<lambda>t. None) \<rparr>"
      and now = "Seconds 1" and period = "MilliSeconds 100"]
  by (simp add: globals_init_def Seconds_simps GetSeconds_simps PACKET_SIZE_def
        CalculatePacketLoss_Bus_def Let_def)

lemma throughput_of_0: "throughput_of 0 0 = 0"
  by (simp add: throughput_of_def)

lemma run_without_traffic:
  "throughputFile (state (Run (quic_handler (Seconds 0.1) ready_socket) 3
         (quic_main BulkSendApplication []))) = [(1, 0)]"
  "packetLossFile (state (Run (quic_handler (Seconds 0.1) ready_socket) 3
         (quic_main BulkSendApplication []))) = []"
  "events (Run (quic_handler (Seconds 0.1) ready_socket) 3 (quic_main BulkSendApplication []))
       = [(2000000000, Call TraceMetricsEv), (2000000000, Call CalculatePacketLossEv),
          (100000000000, Stop)]"
  by (simp_all add: numeral_3_eq_3 quic_main_def Let_def Schedule_def Simulator_Stop_def Seconds_def
        DURATION_def ProcessOneEvent_def quic_handler_def AttachTraces_def ready_socket_def
        TraceMetrics_def CalculatePacketLoss_def GetSeconds_def globals_init_def throughput_of_0)

text \<open>
  C6: at a loss-calculation tick with \<open>sent = 0\<close> a row with value 0 is written. The TCP
  program and the bus QUIC program do so; \<^verbatim>\<open>CalculatePacketLoss\<close> of the point-to-point QUIC
  program (and of the mesh, ring and star ones) returns the globals as they were. In the run of
  \<^verbatim>\<open>main\<close> without traffic, after the first tick (the third event) the throughput file has
  its row for \<open>t = 1\<close> and the loss file is empty.
\<close>

theorem zero_sent_tick_writes_no_row:
  "fst (CalculatePacketLoss (Seconds 1) globals_init) = globals_init
   \<and> packetLossFile (fst (CalculatePacketLoss (Seconds 1) globals_init)) = []
   \<and> packetLossFile (fst (CalculatePacketLoss_tcp (MilliSeconds 100) (Seconds 1) globals_init))
       = [(1, 0)]
   \<and> packetLossFile (fst (CalculatePacketLoss_Bus idle_env (Seconds 1) globals_init)) = [(1, 0)]
   \<and> throughputFile (state (Run (quic_handler (Seconds 0.1) ready_socket) 3
         (quic_main BulkSendApplication []))) = [(1, 0)]
   \<and> packetLossFile (state (Run (quic_handler (Seconds 0.1) ready_socket) 3
         (quic_main BulkSendApplication []))) = []
   \<and> events (Run (quic_handler (Seconds 0.1) ready_socket) 3 (quic_main BulkSendApplication []))
       = [(2000000000, Call TraceMetricsEv), (2000000000, Call CalculatePacketLossEv),
          (100000000000, Stop)]"
proof -
  have "fst (CalculatePacketLoss (Seconds 1) globals_init) = globals_init
   \<and> packetLossFile (fst (CalculatePacketLoss (Seconds 1) globals_init)) = []
   \<and> packetLossFile (fst (CalculatePacketLoss_tcp (MilliSeconds 100) (Seconds 1) globals_init))
       = [(1, 0)]
   \<and> packetLossFile (fst (CalculatePacketLoss_Bus idle_env (Seconds 1) globals_init)) = [(1, 0)]"
    by (simp add: CalculatePacketLoss_def CalculatePacketLoss_tcp_def CalculatePacketLoss_Bus_def
        globals_init_def idle_env_def Seconds_simps GetSeconds_simps PACKET_SIZE_def)
  then show ?thesis using run_without_traffic by blast
qed

section \<open>Congestion window\<close>

text \<open>
  C7 (as stated): the reported congestion window is the cached byte value divided by the
  reference packet size, as an exact quotient. The division is done on \<^verbatim>\<open>uint32_t\<close>: 1600
  bytes are reported as 1 packet, not as \<open>1600 / 1500\<close>.
\<close>

theorem cwnd_quotient_truncated:
  "g_cwnd (CwndTracer 0 1600 globals_init) = 1 \<and> (1600 :: real) / 1500 \<noteq> 1"
  by (simp add: CwndTracer_def PACKET_SIZE_def globals_init_def)

text \<open>
  C7 (amended): for every congestion-window value \<open>b\<close> in bytes, the value cached by
  \<^verbatim>\<open>CwndTracer\<close> and written by the next \<^verbatim>\<open>TraceMetrics\<close> tick, and the value written by
  \<^verbatim>\<open>CwndChange\<close>, is the whole number of reference packets \<open>\<lfloor>b / 1500\<rfloor>\<close>; it is the exact
  quotient when 1500 divides \<open>b\<close>, and 15000 bytes are reported as 10.0 packets.
\<close>

theorem cwnd_whole_packets:
  "g_cwnd (CwndTracer oldCwnd b s) = real_of_int \<lfloor>real (unat b) / 1500\<rfloor>
   \<and> cwndFile (fst (TraceMetrics e now (CwndTracer oldCwnd b s))) =
         cwndFile s @ [(GetSeconds now, real_of_int \<lfloor>real (unat b) / 1500\<rfloor>)]
   \<and> cwndFile (CwndChange now oldCwnd b s) =
         cwndFile s @ [(GetSeconds now, real_of_int \<lfloor>real (unat b) / 1500\<rfloor>)]
   \<and> (1500 dvd unat b \<longrightarrow> g_cwnd (CwndTracer oldCwnd b s) = real (unat b) / 1500)
   \<and> g_cwnd (CwndTracer oldCwnd 15000 s) = 10.0"
proof -
  have f: "real (unat (b div PACKET_SIZE)) = real_of_int \<lfloor>real (unat b) / 1500\<rfloor>"
    by (rule cwnd_floor)
  have d: "1500 dvd unat b \<longrightarrow> real_of_int \<lfloor>real (unat b) / 1500\<rfloor> = real (unat b) / 1500"
    by (auto simp del: of_nat_unat)
  have ex: "g_cwnd (CwndTracer oldCwnd 15000 s) = 10.0"
    by (simp add: CwndTracer_def PACKET_SIZE_def)
  show ?thesis
    using d ex
    by (simp add: CwndTracer_def TraceMetrics_def CwndChange_def TCP_SEGMENT_SIZE_def f
          Let_def flip: PACKET_SIZE_def del: of_nat_unat)
qed

theorem cwnd_whole_packets_witness:
  "g_cwnd (CwndTracer 0 15000 globals_init) = 10
   \<and> cwndFile (fst (TraceMetrics idle_env (Seconds 1) (CwndTracer 0 15000 globals_init)))
       = [(1, 10)]
   \<and> cwndFile (CwndChange (Seconds 1) 0 15000 globals_init) = [(1, 10)]
   \<and> g_cwnd (CwndTracer 0 15000 globals_init) = 15000 / 1500"
  using cwnd_whole_packets [where b = 15000 and oldCwnd = 0 and s = globals_init
      and e = idle_env and now = "Seconds 1"]
  by (simp add: globals_init_def Seconds_simps GetSeconds_simps)

section \<open>Throughput\<close>

lemma lastTotalRx_frame:
  "lastTotalRx (fst (quic_handler delay e now ev s)) =
     (if ev = TraceMetricsEv then GetTotalRx e now else lastTotalRx s)"
  "lastTotalRx (fst (tcp_handler period e now tev s)) =
     (if tev = findThroughputEv then GetTotalRx e now else lastTotalRx s)"
proof -
  have d: "lastTotalRx (deliver n s) = lastTotalRx s" for n
    by (cases n; simp add: deliver_def PacketSentCallback_def PacketReceivedCallback_def
        CwndTracer_funpow RttTracer_funpow CwndTracer_def RttTracer_def)
  have a: "lastTotalRx (fst (AttachTraces delay e now app s)) = lastTotalRx s" for app
    by (simp add: AttachTraces_def split: application.splits option.splits socket.splits)
  show "lastTotalRx (fst (quic_handler delay e now ev s)) =
     (if ev = TraceMetricsEv then GetTotalRx e now else lastTotalRx s)"
    by (cases ev; simp add: quic_handler_def d a TraceMetrics_def CalculatePacketLoss_def Let_def)
  have dt: "lastTotalRx (deliver_tcp now n s) = lastTotalRx s" for n
    by (cases n; simp add: deliver_tcp_def PacketSentCallback_def PacketReceivedCallback_def
        CwndChange_def RttChange_def)
  show "lastTotalRx (fst (tcp_handler period e now tev s)) =
     (if tev = findThroughputEv then GetTotalRx e now else lastTotalRx s)"
    by (cases tev; simp add: tcp_handler_def dt findThroughput_def CalculatePacketLoss_tcp_def Let_def)
qed

text \<open>
  C5: at every sampling tick the throughput written is the received-byte total now minus the
  total kept from the previous tick, times 8, divided by \<open>10\<^sup>6\<close>; the kept total starts at 0, is
  overwritten by each tick and is changed by nothing else. The difference is the 64-bit one,
  which is the difference of the two totals whenever the total has not decreased. For the
  totals 0, 1250000, 2500000 read at \<open>t = 1\<close> and \<open>t = 2\<close> the two rows are 10.0 and 10.0.
\<close>

theorem throughput_from_delta:
  "throughputFile (fst (TraceMetrics e now s)) =
     throughputFile s @
       [(GetSeconds now, real (unat (GetTotalRx e now - lastTotalRx s)) * 8 / 1000000)]
   \<and> throughputFile (fst (findThroughput period e now s)) =
     throughputFile s @
       [(GetSeconds now, real (unat (GetTotalRx e now - lastTotalRx s)) * 8 / 1000000)]
   \<and> lastTotalRx (fst (TraceMetrics e now s)) = GetTotalRx e now
   \<and> lastTotalRx (fst (findThroughput period e now s)) = GetTotalRx e now
   \<and> lastTotalRx globals_init = 0
   \<and> lastTotalRx (fst (quic_handler delay e now ev s)) =
       (if ev = TraceMetricsEv then GetTotalRx e now else lastTotalRx s)
   \<and> lastTotalRx (fst (tcp_handler period e now tev s)) =
       (if tev = findThroughputEv then GetTotalRx e now else lastTotalRx s)
   \<and> (lastTotalRx s \<le> GetTotalRx e now \<longrightarrow>
        real (unat (GetTotalRx e now - lastTotalRx s)) * 8 / 1000000
        = (real (unat (GetTotalRx e now)) - real (unat (lastTotalRx s))) * 8 / 1000000)
   \<and> (GetTotalRx e (Seconds 1) = 1250000 \<and> GetTotalRx e (Seconds 2) = 2500000 \<longrightarrow>
        throughputFile (fst (TraceMetrics e (Seconds 2) (fst (TraceMetrics e (Seconds 1) globals_init))))
          = [(1, 10.0), (2, 10.0)]
        \<and> throughputFile (fst (findThroughput period e (Seconds 2)
              (fst (findThroughput period e (Seconds 1) globals_init))))
          = [(1, 10.0), (2, 10.0)])"
proof -
  have a: "lastTotalRx s \<le> GetTotalRx e now \<longrightarrow>
        real (unat (GetTotalRx e now - lastTotalRx s)) * 8 / 1000000
        = (real (unat (GetTotalRx e now)) - real (unat (lastTotalRx s))) * 8 / 1000000"
    using throughput_of_mono [of "lastTotalRx s" "GetTotalRx e now"]
    by (simp add: throughput_of_def del: of_nat_unat)
  have i: "lastTotalRx globals_init = 0" "throughputFile globals_init = []"
    by (simp_all add: globals_init_def)
  have v: "throughput_of 1250000 0 = 10" "throughput_of 2500000 1250000 = 10"
    by (simp_all add: throughput_of_def)
  have b: "GetTotalRx e (Seconds 1) = 1250000 \<and> GetTotalRx e (Seconds 2) = 2500000 \<longrightarrow>
        throughputFile (fst (TraceMetrics e (Seconds 2) (fst (TraceMetrics e (Seconds 1) globals_init))))
          = [(1, 10.0), (2, 10.0)]
        \<and> throughputFile (fst (findThroughput period e (Seconds 2)
              (fst (findThroughput period e (Seconds 1) globals_init))))
          = [(1, 10.0), (2, 10.0)]"
    by (simp add: TraceMetrics_throughput findThroughput_throughput i v Seconds_simps
          GetSeconds_simps)
  have c: "throughput_of (GetTotalRx e now) (lastTotalRx s)
            = real (unat (GetTotalRx e now - lastTotalRx s)) * 8 / 1000000"
    by (simp add: throughput_of_def)
  show ?thesis
    using a b i(1) lastTotalRx_frame(1) [of delay e now ev s]
      lastTotalRx_frame(2) [of period e now tev s]
    by (simp only: TraceMetrics_throughput findThroughput_throughput c)
qed

theorem throughput_from_delta_witness:
  "throughputFile (fst (TraceMetrics sink_10Mbps (Seconds 2)
       (fst (TraceMetrics sink_10Mbps (Seconds 1) globals_init)))) = [(1, 10), (2, 10)]
   \<and> throughputFile (fst (findThroughput (Seconds 1) sink_10Mbps (Seconds 2)
       (fst (findThroughput (Seconds 1) sink_10Mbps (Seconds 1) globals_init)))) = [(1, 10), (2, 10)]
   \<and> (real (unat (GetTotalRx sink_10Mbps (Seconds 1) - lastTotalRx globals_init)) * 8 / 1000000
        = (1250000 - 0) * 8 / 1000000)"
  using throughput_from_delta [where e = sink_10Mbps and s = globals_init and now = "Seconds 1"
      and period = "Seconds 1"]
  by (simp add: sink_10Mbps_def Seconds_simps globals_init_def)

text \<open>
  C9: running the tick twice with the received-byte total unchanged between the two calls
  writes a throughput of exactly 0.0 at the second call.
\<close>

theorem second_tick_reports_zero:
  assumes "GetTotalRx e now' = GetTotalRx e now"
  shows "throughputFile (fst (TraceMetrics e now' (fst (TraceMetrics e now s)))) =
           throughputFile (fst (TraceMetrics e now s)) @ [(GetSeconds now', 0.0)]
       \<and> throughputFile (fst (findThroughput period e now' (fst (findThroughput period e now s)))) =
           throughputFile (fst (findThroughput period e now s)) @ [(GetSeconds now', 0.0)]"
  using assms
  by (simp add: TraceMetrics_throughput findThroughput_throughput throughput_of_def)

theorem second_tick_reports_zero_witness:
  "throughputFile (fst (TraceMetrics sink_10Mbps 1500000000
       (fst (TraceMetrics sink_10Mbps (Seconds 1) globals_init)))) = [(1, 10), (3 / 2, 0)]
   \<and> throughputFile (fst (findThroughput (Seconds 1) sink_10Mbps 1500000000
       (fst (findThroughput (Seconds 1) sink_10Mbps (Seconds 1) globals_init)))) = [(1, 10), (3 / 2, 0)]"
  using second_tick_reports_zero [where e = sink_10Mbps and now = "Seconds 1" and now' = 1500000000
      and s = globals_init and period = "Seconds 1"]
  by (simp add: TraceMetrics_throughput findThroughput_throughput throughput_of_def
        sink_10Mbps_def Seconds_simps GetSeconds_def globals_init_def)

section \<open>Counters\<close>

lemma deliver_counters:
  "packetsSent (deliver n s) = (if n = Tx then packetsSent s + 1 else packetsSent s)"
  "packetsReceived (deliver n s) = (if n = Rx then packetsReceived s + 1 else packetsReceived s)"
  by (cases n; simp add: deliver_def PacketSentCallback_def PacketReceivedCallback_def
        CwndTracer_funpow RttTracer_funpow CwndTracer_def RttTracer_def)+

lemma deliver_tcp_counters:
  "packetsSent (deliver_tcp now n s) = (if n = Tx then packetsSent s + 1 else packetsSent s)"
  "packetsReceived (deliver_tcp now n s) = (if n = Rx then packetsReceived s + 1 else packetsReceived s)"
  by (cases n; simp add: deliver_tcp_def PacketSentCallback_def PacketReceivedCallback_def
        CwndChange_def RttChange_def)+

lemma AttachTraces_counters:
  "packetsSent (fst (AttachTraces delay e now app s)) = packetsSent s"
  "packetsReceived (fst (AttachTraces delay e now app s)) = packetsReceived s"
  by (simp_all add: AttachTraces_def split: application.splits option.splits socket.splits)

lemma tick_counters:
  "packetsSent (fst (TraceMetrics e now s)) = packetsSent s"
  "packetsReceived (fst (TraceMetrics e now s)) = packetsReceived s"
  "packetsSent (fst (CalculatePacketLoss now s)) = packetsSent s"
  "packetsReceived (fst (CalculatePacketLoss now s)) = packetsReceived s"
  "packetsSent (fst (findThroughput period e now s)) = packetsSent s"
  "packetsReceived (fst (findThroughput period e now s)) = packetsReceived s"
  "packetsSent (fst (CalculatePacketLoss_tcp period now s)) = packetsSent s"
  "packetsReceived (fst (CalculatePacketLoss_tcp period now s)) = packetsReceived s"
  by (simp_all add: TraceMetrics_def CalculatePacketLoss_def findThroughput_def
        CalculatePacketLoss_tcp_def Let_def)

lemma quic_handler_counters:
  "packetsSent (fst (quic_handler delay e now ev s)) =
     (if ev = Notify Tx then packetsSent s + 1 else packetsSent s)"
  "packetsReceived (fst (quic_handler delay e now ev s)) =
     (if ev = Notify Rx then packetsReceived s + 1 else packetsReceived s)"
  by (cases ev; simp add: quic_handler_def deliver_counters AttachTraces_counters tick_counters)+

lemma tcp_handler_counters:
  "packetsSent (fst (tcp_handler period e now tev s)) =
     (if tev = NotifyTcp Tx then packetsSent s + 1 else packetsSent s)"
  "packetsReceived (fst (tcp_handler period e now tev s)) =
     (if tev = NotifyTcp Rx then packetsReceived s + 1 else packetsReceived s)"
  by (cases tev; simp add: tcp_handler_def deliver_tcp_counters tick_counters)+

lemma unat_succ_u32:
  fixes x :: u32
  assumes "unat x < 4294967295"
  shows "unat (x + 1) = unat x + 1"
proof -
  have "unat x + unat (1 :: u32) < 2 ^ LENGTH(32)" using assms by simp
  then have "unat (x + 1) = unat x + unat (1 :: u32)" by (simp only: unat_add_lem [THEN iffD1])
  then show ?thesis by simp
qed

text \<open>
  C8 (as stated): the counters are mutated only by the transmit and receive callbacks, every
  sampler or loss-calculation tick leaves both unchanged, and so the counters never decrease.
  The loss tick of the bus QUIC program overwrites \<open>packetsReceived\<close> (from 0 to 2 when the sink
  has received 3000 bytes), and the increment of a 32-bit counter at \<open>2\<^sup>3\<^sup>2 - 1\<close> yields 0.
\<close>

theorem counters_changed_by_bus_tick:
  "packetsReceived globals_init = 0
   \<and> packetsReceived (fst (CalculatePacketLoss_Bus
         \<lparr> GetTotalRx = (\<lambda>t. 3000), GetSocket = (\<lambda>t. None) \<rparr> (Seconds 1) globals_init)) = 2
   \<and> packetsSent (PacketSentCallback (globals_init\<lparr> packetsSent := 4294967295 \<rparr>)) = 0"
  by (simp add: CalculatePacketLoss_Bus_def Let_def globals_init_def PACKET_SIZE_def
        PacketSentCallback_def)

text \<open>
  C8 (amended): in the point-to-point QUIC program and in the TCP program, \<open>packetsSent\<close> is
  changed by the \<^verbatim>\<open>Tx\<close> callback only and \<open>packetsReceived\<close> by the \<^verbatim>\<open>Rx\<close> callback only, each
  by an increment of one modulo \<open>2\<^sup>3\<^sup>2\<close>; every sampler tick and every loss-calculation tick
  leaves both counters unchanged; so no event decreases a counter that is below \<open>2\<^sup>3\<^sup>2 - 1\<close>.
\<close>

theorem counters_frame:
  "packetsSent (fst (quic_handler delay e now ev s)) =
     (if ev = Notify Tx then packetsSent s + 1 else packetsSent s)
   \<and> packetsReceived (fst (quic_handler delay e now ev s)) =
     (if ev = Notify Rx then packetsReceived s + 1 else packetsReceived s)
   \<and> packetsSent (fst (tcp_handler period e now tev s)) =
     (if tev = NotifyTcp Tx then packetsSent s + 1 else packetsSent s)
   \<and> packetsReceived (fst (tcp_handler period e now tev s)) =
     (if tev = NotifyTcp Rx then packetsReceived s + 1 else packetsReceived s)
   \<and> packetsSent (fst (TraceMetrics e now s)) = packetsSent s
   \<and> packetsReceived (fst (TraceMetrics e now s)) = packetsReceived s
   \<and> packetsSent (fst (CalculatePacketLoss now s)) = packetsSent s
   \<and> packetsReceived (fst (CalculatePacketLoss now s)) = packetsReceived s
   \<and> packetsSent (fst (findThroughput period e now s)) = packetsSent s
   \<and> packetsReceived (fst (findThroughput period e now s)) = packetsReceived s
   \<and> packetsSent (fst (CalculatePacketLoss_tcp period now s)) = packetsSent s
   \<and> packetsReceived (fst (CalculatePacketLoss_tcp period now s)) = packetsReceived s
   \<and> (unat (packetsSent s) < 4294967295 \<longrightarrow>
        unat (packetsSent s) \<le> unat (packetsSent (fst (quic_handler delay e now ev s)))
        \<and> unat (packetsSent s) \<le> unat (packetsSent (fst (tcp_handler period e now tev s))))
   \<and> (unat (packetsReceived s) < 4294967295 \<longrightarrow>
        unat (packetsReceived s) \<le> unat (packetsReceived (fst (quic_handler delay e now ev s)))
        \<and> unat (packetsReceived s) \<le> unat (packetsReceived (fst (tcp_handler period e now tev s))))"
  by (simp add: quic_handler_counters tcp_handler_counters tick_counters unat_succ_u32)

theorem counters_frame_witness:
  "packetsSent (fst (quic_handler (Seconds 0.1) idle_env (Seconds 1) (Notify Tx) globals_init)) = 1
   \<and> packetsSent (fst (tcp_handler (MilliSeconds 100) idle_env (Seconds 1) (NotifyTcp Tx) globals_init)) = 1
   \<and> packetsReceived (fst (quic_handler (Seconds 0.1) idle_env (Seconds 1) (Notify Tx) globals_init)) = 0
   \<and> unat (packetsSent globals_init)
       \<le> unat (packetsSent (fst (quic_handler (Seconds 0.1) idle_env (Seconds 1) (Notify Tx) globals_init)))"
  using counters_frame [where s = globals_init and ev = "Notify Tx" and tev = "NotifyTcp Tx"
      and delay = "Seconds 0.1" and period = "MilliSeconds 100" and e = idle_env and now = "Seconds 1"]
  by (simp add: globals_init_def)

section \<open>Trace attachment\<close>

text \<open>
  C4: \<^verbatim>\<open>AttachTraces\<close> on an application that is not a bulk-data sender reports an error,
  schedules nothing and changes nothing else: the event loop goes on with the events that were
  waiting. On a bulk-data sender whose socket is null it reports no error and schedules exactly
  one retry of the same attempt. The retry delay is 0.1 s in the point-to-point program and
  0.2 s in the mesh program.
\<close>

theorem attach_failure_classes:
  "AttachTraces delay e now OtherApplication s =
     (s\<lparr> ns_log := ns_log s @ [LOG_ERROR ''Failed to get BulkSendApplication.''] \<rparr>, [])
   \<and> (events w = (now, Call (AttachTracesEv OtherApplication)) # rest \<longrightarrow>
        ProcessOneEvent (quic_handler delay e) w =
          w\<lparr> Now := now, events := rest,
             state := (state w)\<lparr> ns_log := ns_log (state w)
                        @ [LOG_ERROR ''Failed to get BulkSendApplication.''] \<rparr> \<rparr>)
   \<and> (GetSocket e now = None \<longrightarrow>
        AttachTraces delay e now BulkSendApplication s =
          (s\<lparr> ns_log := ns_log s @ [LOG_INFO ''Socket is null, retrying...''] \<rparr>,
           [(delay, AttachTracesEv BulkSendApplication)])
        \<and> snd (quic_p2p_handler e now (AttachTracesEv BulkSendApplication) s) =
           [(100000000, AttachTracesEv BulkSendApplication)]
        \<and> snd (quic_mesh_handler e now (AttachTracesEv BulkSendApplication) s) =
           [(200000000, AttachTracesEv BulkSendApplication)]
        \<and> (events w = (now, Call (AttachTracesEv BulkSendApplication)) # rest \<longrightarrow>
             events (ProcessOneEvent (quic_handler delay e) w) =
               Insert (now + delay, Call (AttachTracesEv BulkSendApplication)) rest))
   \<and> snd (quic_p2p_handler e now (AttachTracesEv OtherApplication) s) = []
   \<and> snd (quic_mesh_handler e now (AttachTracesEv OtherApplication) s) = []
   \<and> GetSeconds 100000000 = 0.1 \<and> GetSeconds 200000000 = 0.2"
  by (simp add: AttachTraces_def quic_p2p_handler_def quic_mesh_handler_def quic_handler_def
        Seconds_def GetSeconds_def ProcessOneEvent_def Schedule_def)

theorem attach_failure_classes_witness:
  "AttachTraces (Seconds 0.1) idle_env (Seconds 0.1) BulkSendApplication globals_init =
     (globals_init\<lparr> ns_log := [LOG_INFO ''Socket is null, retrying...''] \<rparr>,
      [(100000000, AttachTracesEv BulkSendApplication)])
   \<and> AttachTraces (Seconds 0.1) idle_env (Seconds 0.1) OtherApplication globals_init =
     (globals_init\<lparr> ns_log := [LOG_ERROR ''Failed to get BulkSendApplication.''] \<rparr>, [])
   \<and> events (ProcessOneEvent (quic_handler (Seconds 0.1) idle_env)
         (quic_main BulkSendApplication [])) =
       [(200000000, Call (AttachTracesEv BulkSendApplication)), (1000000000, Call TraceMetricsEv),
        (1000000000, Call CalculatePacketLossEv), (100000000000, Stop)]
   \<and> events (ProcessOneEvent (quic_handler (Seconds 0.1) idle_env)
         (quic_main OtherApplication [])) =
       [(1000000000, Call TraceMetricsEv), (1000000000, Call CalculatePacketLossEv),
        (100000000000, Stop)]"
  using attach_failure_classes [where e = idle_env and now = "Seconds 0.1" and s = globals_init
      and delay = "Seconds 0.1" and w = "quic_main BulkSendApplication []"
      and rest = "[(1000000000, Call TraceMetricsEv), (1000000000, Call CalculatePacketLossEv),
        (100000000000, Stop)]"]
    attach_failure_classes [where e = idle_env and now = "Seconds 0.1" and s = globals_init
      and delay = "Seconds 0.1" and w = "quic_main OtherApplication []"
      and rest = "[(1000000000, Call TraceMetricsEv), (1000000000, Call CalculatePacketLossEv),
        (100000000000, Stop)]"]
  by (simp add: idle_env_def globals_init_def Seconds_def quic_main_def Let_def Schedule_def
        Simulator_Stop_def DURATION_def)

section \<open>Runs of the event loop\<close>

lemma pending_Nil [simp]: "pending c [] = []"
  by (simp add: pending_def)

lemma pending_Cons:
  "pending c ((t, ev) # q) = (if ev = Call c then t # pending c q else pending c q)"
  by (simp add: pending_def)

lemma pending_Insert_other:
  "ev \<noteq> Call c \<Longrightarrow> pending c (Insert (t, ev) q) = pending c q"
  by (induction q) (auto simp: pending_def)

lemma pending_Insert_same:
  "pending c q = [] \<Longrightarrow> pending c (Insert (t, Call c) q) = [t]"
  by (induction q) (auto simp: pending_def split: if_splits)

lemma fold_Schedule_fields:
  "state (fold Schedule calls w) = state w"
  "Now (fold Schedule calls w) = Now w"
  "stop (fold Schedule calls w) = stop w"
  by (induction calls arbitrary: w; simp add: Schedule_def)+

lemma pending_fold_Schedule:
  "c \<notin> snd ` set calls \<Longrightarrow>
     pending c (events (fold Schedule calls w)) = pending c (events w)"
  by (induction calls arbitrary: w) (auto simp: Schedule_def pending_Insert_other)

lemma fold_notify_fields:
  "state (fold (notify_at wrap) ns w) = state w"
  "Now (fold (notify_at wrap) ns w) = Now w"
  "stop (fold (notify_at wrap) ns w) = stop w"
  by (induction ns arbitrary: w; simp add: notify_at_def)+

lemma pending_fold_notify:
  assumes "c \<notin> range wrap"
  shows "pending c (events (fold (notify_at wrap) ns w)) = pending c (events w)"
proof (induction ns arbitrary: w)
  case Nil
  show ?case by simp
next
  case (Cons x ns)
  have "Call (wrap (snd x)) \<noteq> Call c" using assms by auto
  then have "pending c (events (notify_at wrap x w)) = pending c (events w)"
    by (simp add: notify_at_def pending_Insert_other)
  then show ?case using Cons.IH by simp
qed

text \<open>The k-th firing of a self-rescheduling callback.\<close>

lemma chain_step:
  assumes resched: "\<And>t s. snd (h t c s) = [(p, c)]"
    and others: "\<And>t ev s. ev \<noteq> c \<Longrightarrow> c \<notin> snd ` set (snd (h t ev s))"
    and Q_tick: "\<And>m s. Q m s \<Longrightarrow> Q (Suc m) (fst (h (T0 + int m * p) c s))"
    and Q_other: "\<And>m t ev s. ev \<noteq> c \<Longrightarrow> Q m s \<Longrightarrow> Q m (fst (h t ev s))"
    and inv: "Q m (state w)" "pending c (events w) = [T0 + int m * p]"
  shows "\<exists>m'. Q m' (state (ProcessOneEvent h w))
            \<and> pending c (events (ProcessOneEvent h w)) = [T0 + int m' * p]"
proof (cases "events w")
  case Nil
  then show ?thesis using inv by simp
next
  case (Cons x rest)
  obtain t ev where x: "x = (t, ev)" by (cases x)
  show ?thesis
  proof (cases ev)
    case Stop
    then have "ProcessOneEvent h w = w\<lparr> Now := t, events := rest, stop := True \<rparr>"
      using Cons x by (simp add: ProcessOneEvent_def)
    moreover have "pending c rest = [T0 + int m * p]"
      using inv(2) Cons x Stop by (simp add: pending_Cons)
    ultimately show ?thesis using inv(1) by auto
  next
    case (Call c')
    let ?w' = "w\<lparr> Now := t, events := rest, state := fst (h t c' (state w)) \<rparr>"
    have step: "ProcessOneEvent h w = fold Schedule (snd (h t c' (state w))) ?w'"
      using Cons x Call by (simp add: ProcessOneEvent_def)
    show ?thesis
    proof (cases "c' = c")
      case True
      have t: "t = T0 + int m * p" and rest: "pending c rest = []"
        using inv(2) Cons x Call True by (simp_all add: pending_Cons)
      have "pending c (events (ProcessOneEvent h w)) = [t + p]"
        using rest by (simp add: step True resched Schedule_def pending_Insert_same)
      moreover have "t + p = T0 + int (Suc m) * p"
        by (simp add: t algebra_simps)
      moreover have "Q (Suc m) (state (ProcessOneEvent h w))"
        using Q_tick [OF inv(1)] by (simp add: step True fold_Schedule_fields t)
      ultimately show ?thesis by metis
    next
      case False
      have "pending c rest = [T0 + int m * p]"
        using inv(2) Cons x Call False by (simp add: pending_Cons)
      then have "pending c (events (ProcessOneEvent h w)) = [T0 + int m * p]"
        using others [OF False] by (simp add: step pending_fold_Schedule)
      moreover have "Q m (state (ProcessOneEvent h w))"
        using Q_other [OF False inv(1)] by (simp add: step fold_Schedule_fields)
      ultimately show ?thesis by metis
    qed
  qed
qed

lemma chain_Run:
  assumes resched: "\<And>t s. snd (h t c s) = [(p, c)]"
    and others: "\<And>t ev s. ev \<noteq> c \<Longrightarrow> c \<notin> snd ` set (snd (h t ev s))"
    and Q_tick: "\<And>m s. Q m s \<Longrightarrow> Q (Suc m) (fst (h (T0 + int m * p) c s))"
    and Q_other: "\<And>m t ev s. ev \<noteq> c \<Longrightarrow> Q m s \<Longrightarrow> Q m (fst (h t ev s))"
    and inv: "Q m (state w)" "pending c (events w) = [T0 + int m * p]"
  shows "\<exists>m'. Q m' (state (Run h n w)) \<and> pending c (events (Run h n w)) = [T0 + int m' * p]"
  using inv
proof (induction n arbitrary: m w)
  case 0
  then show ?case by auto
next
  case (Suc n)
  show ?case
  proof (cases "events w \<noteq> [] \<and> \<not> stop w")
    case True
    obtain m' where "Q m' (state (ProcessOneEvent h w))"
      "pending c (events (ProcessOneEvent h w)) = [T0 + int m' * p]"
      using chain_step [of h c p Q T0, OF resched others Q_tick Q_other Suc.prems] by blast
    then show ?thesis using Suc.IH True by simp
  next
    case False
    then show ?thesis using Suc.prems by auto
  qed
qed

section \<open>Sampling times\<close>

lemma deliver_files:
  "throughputFile (deliver n s) = throughputFile s"
  "rttFile (deliver n s) = rttFile s"
  "cwndFile (deliver n s) = cwndFile s"
  "packetLossFile (deliver n s) = packetLossFile s"
  by (cases n; simp add: deliver_def PacketSentCallback_def PacketReceivedCallback_def
        CwndTracer_funpow RttTracer_funpow CwndTracer_def RttTracer_def)+

lemma AttachTraces_files:
  "throughputFile (fst (AttachTraces delay e now app s)) = throughputFile s"
  "rttFile (fst (AttachTraces delay e now app s)) = rttFile s"
  "cwndFile (fst (AttachTraces delay e now app s)) = cwndFile s"
  "packetLossFile (fst (AttachTraces delay e now app s)) = packetLossFile s"
  by (simp_all add: AttachTraces_def split: application.splits option.splits socket.splits)

lemma AttachTraces_calls:
  "set (snd (AttachTraces delay e now app s)) \<subseteq> {(delay, AttachTracesEv app)}"
  by (simp add: AttachTraces_def split: application.splits option.splits socket.splits)

lemma quic_resched:
  "snd (quic_handler delay e t TraceMetricsEv s) = [(Seconds 1.0, TraceMetricsEv)]"
  "snd (quic_handler delay e t CalculatePacketLossEv s) = [(Seconds 1.0, CalculatePacketLossEv)]"
  by (simp_all add: quic_handler_def TraceMetrics_def CalculatePacketLoss_def Let_def)

lemma quic_others:
  "ev \<noteq> TraceMetricsEv \<Longrightarrow> TraceMetricsEv \<notin> snd ` set (snd (quic_handler delay e t ev s))"
  "ev \<noteq> CalculatePacketLossEv \<Longrightarrow>
     CalculatePacketLossEv \<notin> snd ` set (snd (quic_handler delay e t ev s))"
  using AttachTraces_calls [of delay e t _ s]
  by (cases ev; fastforce simp: quic_handler_def TraceMetrics_def CalculatePacketLoss_def Let_def)+

lemma GetSeconds_tick: "GetSeconds (1000000000 + int m * 1000000000) = real (Suc m)"
  by (simp add: GetSeconds_def field_simps)

lemma quic_sampler_tick:
  assumes "map fst (throughputFile s) = tick_times m \<and> map fst (rttFile s) = tick_times m
           \<and> map fst (cwndFile s) = tick_times m"
  shows "map fst (throughputFile (fst (quic_handler delay e (1000000000 + int m * 1000000000) TraceMetricsEv s)))
           = tick_times (Suc m)
       \<and> map fst (rttFile (fst (quic_handler delay e (1000000000 + int m * 1000000000) TraceMetricsEv s)))
           = tick_times (Suc m)
       \<and> map fst (cwndFile (fst (quic_handler delay e (1000000000 + int m * 1000000000) TraceMetricsEv s)))
           = tick_times (Suc m)"
  using assms
  by (simp add: quic_handler_def TraceMetrics_def Let_def tick_times_def GetSeconds_tick)

lemma quic_sampler_other:
  assumes "ev \<noteq> TraceMetricsEv"
  shows "throughputFile (fst (quic_handler delay e t ev s)) = throughputFile s
       \<and> rttFile (fst (quic_handler delay e t ev s)) = rttFile s
       \<and> cwndFile (fst (quic_handler delay e t ev s)) = cwndFile s"
  using assms
  by (cases ev; simp add: quic_handler_def deliver_files AttachTraces_files CalculatePacketLoss_def)

lemma not_Notify:
  "TraceMetricsEv \<notin> range Notify" "CalculatePacketLossEv \<notin> range Notify"
  "AttachTracesEv app \<notin> range Notify"
  by auto

lemma quic_main_init:
  "state (quic_main app ns) = globals_init"
  "pending TraceMetricsEv (events (quic_main app ns)) = [1000000000]"
  "pending CalculatePacketLossEv (events (quic_main app ns)) = [1000000000]"
  "pending (AttachTracesEv app) (events (quic_main app ns)) = [100000000]"
  by (simp_all add: quic_main_def Let_def fold_notify_fields pending_fold_notify not_Notify
        Schedule_def Simulator_Stop_def Seconds_simps DURATION_def pending_Cons Seconds_def)

lemma quic_sampler_times:
  "\<exists>m. map fst (throughputFile (state (Run (quic_handler delay e) n (quic_main app ns)))) = tick_times m
     \<and> map fst (rttFile (state (Run (quic_handler delay e) n (quic_main app ns)))) = tick_times m
     \<and> map fst (cwndFile (state (Run (quic_handler delay e) n (quic_main app ns)))) = tick_times m"
proof -
  let ?Q = "\<lambda>m s. map fst (throughputFile s) = tick_times m \<and> map fst (rttFile s) = tick_times m
           \<and> map fst (cwndFile s) = tick_times m"
  have "\<exists>m'. ?Q m' (state (Run (quic_handler delay e) n (quic_main app ns)))
          \<and> pending TraceMetricsEv (events (Run (quic_handler delay e) n (quic_main app ns)))
              = [1000000000 + int m' * 1000000000]"
  proof (rule chain_Run [where Q = ?Q and m = 0])
    show "snd (quic_handler delay e t TraceMetricsEv s) = [(1000000000, TraceMetricsEv)]" for t s
      using quic_resched(1) by (simp add: Seconds_simps)
    show "ev \<noteq> TraceMetricsEv \<Longrightarrow> TraceMetricsEv \<notin> snd ` set (snd (quic_handler delay e t ev s))"
      for t ev s by (rule quic_others)
    show "?Q m s \<Longrightarrow> ?Q (Suc m) (fst (quic_handler delay e (1000000000 + int m * 1000000000) TraceMetricsEv s))"
      for m s by (rule quic_sampler_tick)
    show "ev \<noteq> TraceMetricsEv \<Longrightarrow> ?Q m s \<Longrightarrow> ?Q m (fst (quic_handler delay e t ev s))"
      for m t ev s using quic_sampler_other [of ev delay e t s] by simp
    show "?Q 0 (state (quic_main app ns))"
      by (simp add: quic_main_init globals_init_def tick_times_def)
    show "pending TraceMetricsEv (events (quic_main app ns)) = [1000000000 + int 0 * 1000000000]"
      by (simp add: quic_main_init)
  qed
  then show ?thesis by blast
qed


lemma quic_loss_tick:
  assumes "\<exists>ks. sorted_wrt (<) ks \<and> set ks \<subseteq> {..<m}
             \<and> map fst (packetLossFile s) = map (\<lambda>k. real (Suc k)) ks"
  shows "\<exists>ks. sorted_wrt (<) ks \<and> set ks \<subseteq> {..<Suc m}
             \<and> map fst (packetLossFile (fst (quic_handler delay e
                   (1000000000 + int m * 1000000000) CalculatePacketLossEv s)))
                 = map (\<lambda>k. real (Suc k)) ks"
proof -
  obtain ks where ks: "sorted_wrt (<) ks" "set ks \<subseteq> {..<m}"
    "map fst (packetLossFile s) = map (\<lambda>k. real (Suc k)) ks"
    using assms by blast
  show ?thesis
  proof (cases "packetsSent s > 0")
    case True
    have "sorted_wrt (<) (ks @ [m])" using ks(1,2) by (auto simp: sorted_wrt_append)
    moreover have "set (ks @ [m]) \<subseteq> {..<Suc m}" using ks(2) by auto
    moreover have "map fst (packetLossFile (fst (quic_handler delay e
                   (1000000000 + int m * 1000000000) CalculatePacketLossEv s)))
                 = map (\<lambda>k. real (Suc k)) (ks @ [m])"
      using True ks(3)
      by (simp add: quic_handler_def CalculatePacketLoss_def Let_def GetSeconds_tick)
    ultimately show ?thesis by blast
  next
    case False
    have "set ks \<subseteq> {..<Suc m}" using ks(2) by auto
    moreover have "map fst (packetLossFile (fst (quic_handler delay e
                   (1000000000 + int m * 1000000000) CalculatePacketLossEv s)))
                 = map (\<lambda>k. real (Suc k)) ks"
      using False ks(3) by (simp add: quic_handler_def CalculatePacketLoss_def Let_def)
    ultimately show ?thesis using ks(1) by blast
  qed
qed

lemma quic_loss_other:
  assumes "ev \<noteq> CalculatePacketLossEv"
  shows "packetLossFile (fst (quic_handler delay e t ev s)) = packetLossFile s"
  using assms
  by (cases ev; simp add: quic_handler_def deliver_files AttachTraces_files TraceMetrics_def Let_def)

lemma quic_loss_times:
  "\<exists>ks. sorted_wrt (<) ks
      \<and> map fst (packetLossFile (state (Run (quic_handler delay e) n (quic_main app ns))))
          = map (\<lambda>k. real (Suc k)) ks"
proof -
  let ?Q = "\<lambda>m s. \<exists>ks. sorted_wrt (<) ks \<and> set ks \<subseteq> {..<m}
             \<and> map fst (packetLossFile s) = map (\<lambda>k. real (Suc k)) ks"
  have "\<exists>m'. ?Q m' (state (Run (quic_handler delay e) n (quic_main app ns)))
          \<and> pending CalculatePacketLossEv (events (Run (quic_handler delay e) n (quic_main app ns)))
              = [1000000000 + int m' * 1000000000]"
  proof (rule chain_Run [where Q = ?Q and m = 0])
    show "snd (quic_handler delay e t CalculatePacketLossEv s) = [(1000000000, CalculatePacketLossEv)]"
      for t s using quic_resched(2) by (simp add: Seconds_simps)
    show "ev \<noteq> CalculatePacketLossEv \<Longrightarrow>
            CalculatePacketLossEv \<notin> snd ` set (snd (quic_handler delay e t ev s))"
      for t ev s by (rule quic_others)
    show "?Q m s \<Longrightarrow> ?Q (Suc m) (fst (quic_handler delay e (1000000000 + int m * 1000000000)
            CalculatePacketLossEv s))"
      for m s by (rule quic_loss_tick)
    show "ev \<noteq> CalculatePacketLossEv \<Longrightarrow> ?Q m s \<Longrightarrow> ?Q m (fst (quic_handler delay e t ev s))"
      for m t ev s by (simp add: quic_loss_other)
    show "?Q 0 (state (quic_main app ns))"
      by (simp add: quic_main_init globals_init_def)
    show "pending CalculatePacketLossEv (events (quic_main app ns)) = [1000000000 + int 0 * 1000000000]"
      by (simp add: quic_main_init)
  qed
  then show ?thesis by blast
qed

subsection \<open>TCP\<close>

lemma deliver_tcp_files:
  "throughputFile (deliver_tcp now n s) = throughputFile s"
  "packetLossFile (deliver_tcp now n s) = packetLossFile s"
  by (cases n; simp add: deliver_tcp_def PacketSentCallback_def PacketReceivedCallback_def
        CwndChange_def RttChange_def)+

lemma tcp_resched:
  "snd (tcp_handler period e t findThroughputEv s) = [(period, findThroughputEv)]"
  "snd (tcp_handler period e t CalculatePacketLossTcpEv s) = [(period, CalculatePacketLossTcpEv)]"
  by (simp_all add: tcp_handler_def findThroughput_def CalculatePacketLoss_tcp_def Let_def)

lemma tcp_others:
  "ev \<noteq> findThroughputEv \<Longrightarrow> findThroughputEv \<notin> snd ` set (snd (tcp_handler period e t ev s))"
  "ev \<noteq> CalculatePacketLossTcpEv \<Longrightarrow>
     CalculatePacketLossTcpEv \<notin> snd ` set (snd (tcp_handler period e t ev s))"
  by (cases ev; simp add: tcp_handler_def findThroughput_def CalculatePacketLoss_tcp_def Let_def)+

lemma GetSeconds_tick_tcp:
  "GetSeconds (1000000000 + int m * 100000000) = 1 + real m / 10"
  by (simp add: GetSeconds_def field_simps)

lemma tcp_main_init:
  "state (tcp_main ns) = globals_init"
  "pending findThroughputEv (events (tcp_main ns)) = [1000000000]"
  "pending CalculatePacketLossTcpEv (events (tcp_main ns)) = [1000000000]"
proof -
  have n: "findThroughputEv \<notin> range NotifyTcp" "CalculatePacketLossTcpEv \<notin> range NotifyTcp"
    by auto
  show "state (tcp_main ns) = globals_init"
    "pending findThroughputEv (events (tcp_main ns)) = [1000000000]"
    "pending CalculatePacketLossTcpEv (events (tcp_main ns)) = [1000000000]"
    by (simp_all add: tcp_main_def Let_def fold_notify_fields pending_fold_notify n
        Schedule_def Simulator_Stop_def Seconds_simps DURATION_def pending_Cons Seconds_def)
qed

lemma tcp_throughput_times:
  "\<exists>m. map fst (throughputFile (state (Run (tcp_handler (MilliSeconds 100) e) n (tcp_main ns))))
         = map (\<lambda>k. 1 + real k / 10) [0..<m]"
proof -
  let ?h = "tcp_handler (MilliSeconds 100) e"
  let ?Q = "\<lambda>m s. map fst (throughputFile s) = map (\<lambda>k. 1 + real k / 10) [0..<m]"
  have "\<exists>m'. ?Q m' (state (Run ?h n (tcp_main ns)))
          \<and> pending findThroughputEv (events (Run ?h n (tcp_main ns)))
              = [1000000000 + int m' * 100000000]"
  proof (rule chain_Run [where Q = ?Q and m = 0])
    show "snd (?h t findThroughputEv s) = [(100000000, findThroughputEv)]" for t s
      by (simp add: tcp_resched MilliSeconds_def)
    show "ev \<noteq> findThroughputEv \<Longrightarrow> findThroughputEv \<notin> snd ` set (snd (?h t ev s))"
      for t ev s by (rule tcp_others)
    show "?Q m s \<Longrightarrow> ?Q (Suc m) (fst (?h (1000000000 + int m * 100000000) findThroughputEv s))"
      for m s by (simp add: tcp_handler_def findThroughput_def Let_def GetSeconds_tick_tcp)
    show "ev \<noteq> findThroughputEv \<Longrightarrow> ?Q m s \<Longrightarrow> ?Q m (fst (?h t ev s))"
      for m t ev s
      by (cases ev; simp add: tcp_handler_def deliver_tcp_files CalculatePacketLoss_tcp_def Let_def)
    show "?Q 0 (state (tcp_main ns))"
      by (simp add: tcp_main_init globals_init_def)
    show "pending findThroughputEv (events (tcp_main ns)) = [1000000000 + int 0 * 100000000]"
      by (simp add: tcp_main_init)
  qed
  then show ?thesis by blast
qed

lemma tcp_loss_times:
  "\<exists>m. map fst (packetLossFile (state (Run (tcp_handler (MilliSeconds 100) e) n (tcp_main ns))))
         = map (\<lambda>k. 1 + real k / 10) [0..<m]"
proof -
  let ?h = "tcp_handler (MilliSeconds 100) e"
  let ?Q = "\<lambda>m s. map fst (packetLossFile s) = map (\<lambda>k. 1 + real k / 10) [0..<m]"
  have "\<exists>m'. ?Q m' (state (Run ?h n (tcp_main ns)))
          \<and> pending CalculatePacketLossTcpEv (events (Run ?h n (tcp_main ns)))
              = [1000000000 + int m' * 100000000]"
  proof (rule chain_Run [where Q = ?Q and m = 0])
    show "snd (?h t CalculatePacketLossTcpEv s) = [(100000000, CalculatePacketLossTcpEv)]" for t s
      by (simp add: tcp_resched MilliSeconds_def)
    show "ev \<noteq> CalculatePacketLossTcpEv \<Longrightarrow>
            CalculatePacketLossTcpEv \<notin> snd ` set (snd (?h t ev s))"
      for t ev s by (rule tcp_others)
    show "?Q m s \<Longrightarrow> ?Q (Suc m) (fst (?h (1000000000 + int m * 100000000) CalculatePacketLossTcpEv s))"
      for m s by (simp add: tcp_handler_def CalculatePacketLoss_tcp_def Let_def GetSeconds_tick_tcp)
    show "ev \<noteq> CalculatePacketLossTcpEv \<Longrightarrow> ?Q m s \<Longrightarrow> ?Q m (fst (?h t ev s))"
      for m t ev s
      by (cases ev; simp add: tcp_handler_def deliver_tcp_files findThroughput_def Let_def)
    show "?Q 0 (state (tcp_main ns))"
      by (simp add: tcp_main_init globals_init_def)
    show "pending CalculatePacketLossTcpEv (events (tcp_main ns)) = [1000000000 + int 0 * 100000000]"
      by (simp add: tcp_main_init)
  qed
  then show ?thesis by blast
qed

lemma tcp_first_sample:
  "map fst (throughputFile (state (Run (tcp_handler (MilliSeconds 100) idle_env) 3 (tcp_main []))))
     = [1]"
  by (simp add: eval_nat_numeral tcp_main_def Let_def Schedule_def Simulator_Stop_def Seconds_def
        DURATION_def ProcessOneEvent_def tcp_handler_def findThroughput_def GetSeconds_def
        globals_init_def)

lemma tcp_cwnd_row:
  "cwndFile (fst (tcp_handler (MilliSeconds 100) idle_env 1250000000
       (NotifyTcp (CongestionWindow 0 3000)) globals_init)) = [(5 / 4, 2)]"
  by (simp add: tcp_handler_def deliver_tcp_def CwndChange_def GetSeconds_def globals_init_def
        TCP_SEGMENT_SIZE_def)

text \<open>
  C2 (as stated): every sample timestamp of every metric kind is a multiple of the sampling
  interval, the first sample is at exactly one interval, and consecutive samples are one
  interval apart. In the point-to-point TCP program the throughput sampler reschedules itself
  every 0.1 s but is first scheduled at 1.0 s: the first row of a run has the time 1, not 0.1.
  Its congestion-window rows are written by the change notification: one arriving at 1.25 s is
  stamped 1.25, which is 12.5 intervals.
\<close>

theorem tcp_first_sample_at_one_second:
  "map fst (throughputFile (state (Run (tcp_handler (MilliSeconds 100) idle_env) 3 (tcp_main []))))
     = [1]
   \<and> snd (findThroughput (MilliSeconds 100) idle_env (Seconds 1) globals_init)
     = [(100000000, findThroughputEv)]
   \<and> GetSeconds 100000000 = 1 / 10
   \<and> (1 :: real) \<noteq> 1 / 10
   \<and> cwndFile (fst (tcp_handler (MilliSeconds 100) idle_env 1250000000
         (NotifyTcp (CongestionWindow 0 3000)) globals_init)) = [(5 / 4, 2)]
   \<and> \<lfloor>(5 / 4 :: real) / (1 / 10)\<rfloor> = 12 \<and> (5 / 4 :: real) / (1 / 10) \<noteq> 12"
  using tcp_first_sample tcp_cwnd_row
  by (simp add: findThroughput_def MilliSeconds_def GetSeconds_def del: Run.simps)

text \<open>
  C2 (amended): in every run of the point-to-point QUIC program, whatever the notifications
  and however many events have been processed, the throughput, RTT and congestion-window files
  hold the same timestamps \<open>1, 2, \<dots>, m\<close> seconds (1 s being the sampling interval: none at
  time 0, the first at one interval, consecutive ones exactly one interval apart), and the
  timestamps of the loss file are increasing positive multiples of 1 s. In every run of the
  point-to-point TCP program the timestamps of the throughput file and of the loss file are
  \<open>1.0, 1.1, 1.2, \<dots>\<close>: multiples of the 0.1 s interval, exactly one interval apart, the first at
  1.0 s. (The congestion-window and RTT rows of the TCP program carry the time of the
  notification.)
\<close>

theorem sample_times:
  "(\<exists>m. map fst (throughputFile (state (Run (quic_handler delay e) n (quic_main app ns))))
           = map (\<lambda>k. real (Suc k)) [0..<m]
       \<and> map fst (rttFile (state (Run (quic_handler delay e) n (quic_main app ns))))
           = map (\<lambda>k. real (Suc k)) [0..<m]
       \<and> map fst (cwndFile (state (Run (quic_handler delay e) n (quic_main app ns))))
           = map (\<lambda>k. real (Suc k)) [0..<m])
   \<and> (\<exists>ks. sorted_wrt (<) ks
       \<and> map fst (packetLossFile (state (Run (quic_handler delay e) n (quic_main app ns))))
           = map (\<lambda>k. real (Suc k)) ks)
   \<and> (\<exists>m. map fst (throughputFile (state (Run (tcp_handler (MilliSeconds 100) e) n (tcp_main ns))))
           = map (\<lambda>k. 1 + real k / 10) [0..<m])
   \<and> (\<exists>m. map fst (packetLossFile (state (Run (tcp_handler (MilliSeconds 100) e) n (tcp_main ns))))
           = map (\<lambda>k. 1 + real k / 10) [0..<m])
   \<and> snd (TraceMetrics e now s) = [(1000000000, TraceMetricsEv)]
   \<and> snd (CalculatePacketLoss now s) = [(1000000000, CalculatePacketLossEv)]
   \<and> GetSeconds 1000000000 = 1
   \<and> snd (findThroughput (MilliSeconds 100) e now s) = [(100000000, findThroughputEv)]
   \<and> snd (CalculatePacketLoss_tcp (MilliSeconds 100) now s) = [(100000000, CalculatePacketLossTcpEv)]
   \<and> GetSeconds 100000000 = 1 / 10
   \<and> map fst (cwndFile (deliver_tcp now (CongestionWindow oldCwnd newCwnd) s))
       = map fst (cwndFile s) @ [GetSeconds now]
   \<and> map fst (rttFile (deliver_tcp now (RTT oldRtt newRtt) s))
       = map fst (rttFile s) @ [GetSeconds now]"
proof -
  have c: "snd (TraceMetrics e now s) = [(1000000000, TraceMetricsEv)]
   \<and> snd (CalculatePacketLoss now s) = [(1000000000, CalculatePacketLossEv)]
   \<and> GetSeconds 1000000000 = 1
   \<and> snd (findThroughput (MilliSeconds 100) e now s) = [(100000000, findThroughputEv)]
   \<and> snd (CalculatePacketLoss_tcp (MilliSeconds 100) now s) = [(100000000, CalculatePacketLossTcpEv)]
   \<and> GetSeconds 100000000 = 1 / 10
   \<and> map fst (cwndFile (deliver_tcp now (CongestionWindow oldCwnd newCwnd) s))
       = map fst (cwndFile s) @ [GetSeconds now]
   \<and> map fst (rttFile (deliver_tcp now (RTT oldRtt newRtt) s))
       = map fst (rttFile s) @ [GetSeconds now]"
    by (simp add: TraceMetrics_def CalculatePacketLoss_def findThroughput_def
          CalculatePacketLoss_tcp_def Let_def Seconds_def MilliSeconds_def GetSeconds_def
          deliver_tcp_def CwndChange_def RttChange_def)
  show ?thesis
    using quic_sampler_times [of delay e n app ns] quic_loss_times [of delay e n app ns]
      tcp_throughput_times [of e n ns] tcp_loss_times [of e n ns] c
    unfolding tick_times_def by blast
qed

section \<open>The retry loop\<close>

lemma Run_halted: "events w = [] \<or> stop w \<Longrightarrow> Run h k w = w"
  by (cases k) auto

lemma Run_add: "Run h (a + b) w = Run h b (Run h a w)"
  by (induction a arbitrary: w) (auto simp: Run_halted)

lemma Run_Suc_right:
  "Run h (Suc n) w =
     (if events (Run h n w) \<noteq> [] \<and> \<not> stop (Run h n w)
      then ProcessOneEvent h (Run h n w) else Run h n w)"
proof -
  have "Run h (Suc n) w = Run h (Suc 0) (Run h n w)"
    using Run_add [of h n "Suc 0" w] by simp
  then show ?thesis by simp
qed

lemma AttachTraces_retry:
  assumes "GetSocket e t \<noteq> Some QuicSocketBase"
  shows "AttachTraces delay e t BulkSendApplication s =
           (s\<lparr> ns_log := ns_log s @ [retry_line (GetSocket e t)] \<rparr>,
            [(delay, AttachTracesEv BulkSendApplication)])"
  using assms
  by (simp add: AttachTraces_def retry_line_def split: option.splits socket.splits)

lemma AttachTraces_success:
  assumes "GetSocket e t = Some QuicSocketBase"
  shows "AttachTraces delay e t BulkSendApplication s =
           (s\<lparr> cwnd_connected := cwnd_connected s + 1, rtt_connected := rtt_connected s + 1,
               ns_log := ns_log s @ [LOG_INFO ''Successfully attached traces for cwnd and RTT.''] \<rparr>, [])"
  using assms by (simp add: AttachTraces_def)

lemma retry_prefix:
  assumes "\<forall>i<n. GetSocket e (t0 + int i * delay) \<noteq> Some QuicSocketBase" and "i \<le> n"
  shows "events (Run (quic_handler delay e) i (attach_only t0 s))
           = [(t0 + int i * delay, Call (AttachTracesEv BulkSendApplication))]
       \<and> \<not> stop (Run (quic_handler delay e) i (attach_only t0 s))
       \<and> state (Run (quic_handler delay e) i (attach_only t0 s))
           = s\<lparr> ns_log := ns_log s @ map (\<lambda>j. retry_line (GetSocket e (t0 + int j * delay))) [0..<i] \<rparr>"
  using assms(2)
proof (induction i)
  case 0
  show ?case by (simp add: attach_only_def Schedule_def)
next
  case (Suc i)
  let ?w = "Run (quic_handler delay e) i (attach_only t0 s)"
  let ?t = "t0 + int i * delay"
  have ih: "events ?w = [(?t, Call (AttachTracesEv BulkSendApplication))]" "\<not> stop ?w"
    "state ?w = s\<lparr> ns_log := ns_log s @ map (\<lambda>j. retry_line (GetSocket e (t0 + int j * delay))) [0..<i] \<rparr>"
    using Suc by simp_all
  have no: "GetSocket e ?t \<noteq> Some QuicSocketBase" using assms(1) Suc.prems by simp
  have step: "Run (quic_handler delay e) (Suc i) (attach_only t0 s)
                = ProcessOneEvent (quic_handler delay e) ?w"
    using ih by (simp only: Run_Suc_right) simp
  have t: "?t + delay = t0 + int (Suc i) * delay" by (simp add: algebra_simps)
  show ?case
    unfolding step
    using ih t
    by (simp add: ProcessOneEvent_def quic_handler_def AttachTraces_retry [OF no] Schedule_def)
qed

lemma retry_success:
  assumes "\<forall>i<n. GetSocket e (t0 + int i * delay) \<noteq> Some QuicSocketBase"
    and "GetSocket e (t0 + int n * delay) = Some QuicSocketBase"
  shows "events (Run (quic_handler delay e) (Suc n) (attach_only t0 s)) = []
       \<and> state (Run (quic_handler delay e) (Suc n) (attach_only t0 s))
           = s\<lparr> cwnd_connected := cwnd_connected s + 1, rtt_connected := rtt_connected s + 1,
               ns_log := ns_log s @ map (\<lambda>j. retry_line (GetSocket e (t0 + int j * delay))) [0..<n]
                        @ [LOG_INFO ''Successfully attached traces for cwnd and RTT.''] \<rparr>"
proof -
  let ?w = "Run (quic_handler delay e) n (attach_only t0 s)"
  have p: "events ?w = [(t0 + int n * delay, Call (AttachTracesEv BulkSendApplication))]"
    "\<not> stop ?w"
    "state ?w = s\<lparr> ns_log := ns_log s @ map (\<lambda>j. retry_line (GetSocket e (t0 + int j * delay))) [0..<n] \<rparr>"
    using retry_prefix [OF assms(1), of n s] by simp_all
  have step: "Run (quic_handler delay e) (Suc n) (attach_only t0 s)
                = ProcessOneEvent (quic_handler delay e) ?w"
    using p by (simp only: Run_Suc_right) simp
  show ?thesis
    unfolding step using p
    by (simp add: ProcessOneEvent_def quic_handler_def AttachTraces_success [OF assms(2)])
qed


lemma deliver_connected:
  "cwnd_connected (deliver n s) = cwnd_connected s"
  "rtt_connected (deliver n s) = rtt_connected s"
  by (cases n; simp add: deliver_def PacketSentCallback_def PacketReceivedCallback_def
        CwndTracer_funpow RttTracer_funpow CwndTracer_def RttTracer_def)+

lemma quic_other_connected:
  assumes "ev \<noteq> AttachTracesEv BulkSendApplication"
  shows "cwnd_connected (fst (quic_handler delay e t ev s)) = cwnd_connected s"
    and "rtt_connected (fst (quic_handler delay e t ev s)) = rtt_connected s"
    and "AttachTracesEv BulkSendApplication \<notin> snd ` set (snd (quic_handler delay e t ev s))"
proof -
  have a: "ev = AttachTracesEv app \<Longrightarrow> app = OtherApplication" for app
    using assms by (cases app) auto
  show "cwnd_connected (fst (quic_handler delay e t ev s)) = cwnd_connected s"
    using a by (cases ev) (auto simp: quic_handler_def deliver_connected AttachTraces_def
        TraceMetrics_def CalculatePacketLoss_def Let_def)
  show "rtt_connected (fst (quic_handler delay e t ev s)) = rtt_connected s"
    using a by (cases ev) (auto simp: quic_handler_def deliver_connected AttachTraces_def
        TraceMetrics_def CalculatePacketLoss_def Let_def)
  show "AttachTracesEv BulkSendApplication \<notin> snd ` set (snd (quic_handler delay e t ev s))"
    using a by (cases ev) (auto simp: quic_handler_def AttachTraces_def
        TraceMetrics_def CalculatePacketLoss_def Let_def)
qed

lemma attach_inv_step:
  assumes "attach_inv w"
  shows "attach_inv (ProcessOneEvent (quic_handler delay e) w)"
proof (cases "events w")
  case Nil
  then show ?thesis using assms by (simp add: ProcessOneEvent_def)
next
  case (Cons x rest)
  obtain t ev where x: "x = (t, ev)" by (cases x)
  let ?c = "AttachTracesEv BulkSendApplication"
  show ?thesis
  proof (cases ev)
    case Stop
    then have "ProcessOneEvent (quic_handler delay e) w = w\<lparr> Now := t, events := rest, stop := True \<rparr>"
      using Cons x by (simp add: ProcessOneEvent_def)
    moreover have "pending ?c rest = pending ?c (events w)"
      using Cons x Stop by (simp add: pending_Cons)
    ultimately show ?thesis using assms by (simp add: attach_inv_def)
  next
    case (Call c')
    let ?s' = "fst (quic_handler delay e t c' (state w))"
    let ?w' = "w\<lparr> Now := t, events := rest, state := ?s' \<rparr>"
    have step: "ProcessOneEvent (quic_handler delay e) w
                  = fold Schedule (snd (quic_handler delay e t c' (state w))) ?w'"
      using Cons x Call by (simp add: ProcessOneEvent_def)
    show ?thesis
    proof (cases "c' = ?c")
      case False
      have "pending ?c rest = pending ?c (events w)"
        using Cons x Call False by (simp add: pending_Cons)
      then have "pending ?c (events (ProcessOneEvent (quic_handler delay e) w)) = pending ?c (events w)"
        using quic_other_connected(3) [OF False] by (simp add: step pending_fold_Schedule)
      then show ?thesis
        using assms quic_other_connected(1,2) [OF False]
        by (simp add: attach_inv_def step fold_Schedule_fields)
    next
      case True
      have p: "pending ?c (events w) = t # pending ?c rest"
        using Cons x Call True by (simp add: pending_Cons)
      then have rest: "pending ?c rest = []" and c0: "cwnd_connected (state w) = 0"
        "rtt_connected (state w) = 0"
        using assms by (auto simp: attach_inv_def)
      show ?thesis
      proof (cases "GetSocket e t = Some QuicSocketBase")
        case yes: True
        show ?thesis
          using rest c0
          by (simp add: attach_inv_def step True quic_handler_def AttachTraces_success [OF yes])
      next
        case no: False
        show ?thesis
          using rest c0
          by (simp add: attach_inv_def step True quic_handler_def AttachTraces_retry [OF no]
                Schedule_def pending_Insert_same)
      qed
    qed
  qed
qed

lemma attach_inv_Run:
  "attach_inv w \<Longrightarrow> attach_inv (Run (quic_handler delay e) k w)"
  by (induction k arbitrary: w) (auto simp: attach_inv_step)

lemma attach_inv_main: "attach_inv (quic_main BulkSendApplication ns)"
  by (simp add: attach_inv_def quic_main_init globals_init_def)

lemma pending_empty: "pending c q = [] \<Longrightarrow> (t, Call c) \<notin> set q"
  by (induction q) (auto simp: pending_def split: if_splits)

text \<open>
  C3: when the socket is not available at the first \<open>n\<close> attempts and available at the next,
  the retry loop makes exactly \<open>n\<close> failed attempts, each rescheduling exactly one retry, then
  one successful attachment that connects the congestion-window tracer and the RTT tracer once
  each and schedules nothing; no later step changes anything. Moreover, in every run of
  \<^verbatim>\<open>main\<close>, whatever the socket does, no tracer is ever connected twice, and once the
  tracers are connected no attempt is waiting in the event list.
\<close>

theorem attach_retry_loop:
  assumes "\<forall>i<n. GetSocket e (t0 + int i * delay) \<noteq> Some QuicSocketBase"
    and "GetSocket e (t0 + int n * delay) = Some QuicSocketBase"
  shows "(\<forall>i\<le>n. events (Run (quic_handler delay e) i (attach_only t0 s))
               = [(t0 + int i * delay, Call (AttachTracesEv BulkSendApplication))]
             \<and> state (Run (quic_handler delay e) i (attach_only t0 s))
               = s\<lparr> ns_log := ns_log s @ map (\<lambda>j. retry_line (GetSocket e (t0 + int j * delay))) [0..<i] \<rparr>)
       \<and> events (Run (quic_handler delay e) (Suc n) (attach_only t0 s)) = []
       \<and> state (Run (quic_handler delay e) (Suc n) (attach_only t0 s))
           = s\<lparr> cwnd_connected := cwnd_connected s + 1, rtt_connected := rtt_connected s + 1,
               ns_log := ns_log s @ map (\<lambda>j. retry_line (GetSocket e (t0 + int j * delay))) [0..<n]
                        @ [LOG_INFO ''Successfully attached traces for cwnd and RTT.''] \<rparr>
       \<and> (\<forall>k. Run (quic_handler delay e) (Suc n + k) (attach_only t0 s)
               = Run (quic_handler delay e) (Suc n) (attach_only t0 s))
       \<and> (\<forall>k ns. cwnd_connected (state (Run (quic_handler delay e) k (quic_main BulkSendApplication ns))) \<le> 1
              \<and> rtt_connected (state (Run (quic_handler delay e) k (quic_main BulkSendApplication ns))) \<le> 1
              \<and> (cwnd_connected (state (Run (quic_handler delay e) k (quic_main BulkSendApplication ns))) = 1
                   \<longrightarrow> (\<forall>t. (t, Call (AttachTracesEv BulkSendApplication))
                          \<notin> set (events (Run (quic_handler delay e) k (quic_main BulkSendApplication ns))))))"
proof -
  have a: "\<forall>i\<le>n. events (Run (quic_handler delay e) i (attach_only t0 s))
               = [(t0 + int i * delay, Call (AttachTracesEv BulkSendApplication))]
             \<and> state (Run (quic_handler delay e) i (attach_only t0 s))
               = s\<lparr> ns_log := ns_log s @ map (\<lambda>j. retry_line (GetSocket e (t0 + int j * delay))) [0..<i] \<rparr>"
    using retry_prefix [OF assms(1)] by blast
  note b = retry_success [OF assms, of s]
  have c: "\<forall>k. Run (quic_handler delay e) (Suc n + k) (attach_only t0 s)
               = Run (quic_handler delay e) (Suc n) (attach_only t0 s)"
  proof
    fix k
    have "events (Run (quic_handler delay e) (Suc n) (attach_only t0 s)) = []"
      using b by blast
    then have "Run (quic_handler delay e) k (Run (quic_handler delay e) (Suc n) (attach_only t0 s))
                 = Run (quic_handler delay e) (Suc n) (attach_only t0 s)"
      by (rule Run_halted [OF disjI1])
    then show "Run (quic_handler delay e) (Suc n + k) (attach_only t0 s)
                 = Run (quic_handler delay e) (Suc n) (attach_only t0 s)"
      by (simp only: Run_add)
  qed
  have d: "cwnd_connected (state (Run (quic_handler delay e) k (quic_main BulkSendApplication ns))) \<le> 1
              \<and> rtt_connected (state (Run (quic_handler delay e) k (quic_main BulkSendApplication ns))) \<le> 1
              \<and> (cwnd_connected (state (Run (quic_handler delay e) k (quic_main BulkSendApplication ns))) = 1
                   \<longrightarrow> (\<forall>t. (t, Call (AttachTracesEv BulkSendApplication))
                          \<notin> set (events (Run (quic_handler delay e) k (quic_main BulkSendApplication ns)))))"
    for k ns
    using attach_inv_Run [OF attach_inv_main, of delay e k ns]
      pending_empty [of "AttachTracesEv BulkSendApplication"
        "events (Run (quic_handler delay e) k (quic_main BulkSendApplication ns))"]
    by (auto simp: attach_inv_def)
  show ?thesis using a b c d by blast
qed

theorem attach_retry_loop_witness:
  "events (Run (quic_handler (Seconds 0.1) late_socket) 4 (attach_only (Seconds 0.1) globals_init)) = []
   \<and> state (Run (quic_handler (Seconds 0.1) late_socket) 4 (attach_only (Seconds 0.1) globals_init))
       = globals_init\<lparr> cwnd_connected := 1, rtt_connected := 1,
           ns_log := [LOG_INFO ''Socket is null, retrying...'', LOG_INFO ''Socket is null, retrying...'',
                      LOG_INFO ''Socket is null, retrying...'',
                      LOG_INFO ''Successfully attached traces for cwnd and RTT.''] \<rparr>"
proof -
  have h1: "\<forall>i<3. GetSocket late_socket (Seconds 0.1 + int i * Seconds 0.1) \<noteq> Some QuicSocketBase"
    by (simp add: late_socket_def Seconds_simps)
  have h2: "GetSocket late_socket (Seconds 0.1 + int 3 * Seconds 0.1) = Some QuicSocketBase"
    by (simp add: late_socket_def Seconds_simps)
  have l: "map (\<lambda>j. retry_line (GetSocket late_socket (Seconds 0.1 + int j * Seconds 0.1))) [0..<3]
             = [LOG_INFO ''Socket is null, retrying...'', LOG_INFO ''Socket is null, retrying...'',
                LOG_INFO ''Socket is null, retrying...'']"
    by (simp add: late_socket_def retry_line_def Seconds_simps numeral_3_eq_3 upt_rec)
  have "events (Run (quic_handler (Seconds 0.1) late_socket) (Suc 3) (attach_only (Seconds 0.1) globals_init)) = []
   \<and> state (Run (quic_handler (Seconds 0.1) late_socket) (Suc 3) (attach_only (Seconds 0.1) globals_init))
       = globals_init\<lparr> cwnd_connected := cwnd_connected globals_init + 1,
           rtt_connected := rtt_connected globals_init + 1,
           ns_log := ns_log globals_init
             @ map (\<lambda>j. retry_line (GetSocket late_socket (Seconds 0.1 + int j * Seconds 0.1))) [0..<3]
             @ [LOG_INFO ''Successfully attached traces for cwnd and RTT.''] \<rparr>"
    using attach_retry_loop [OF h1 h2, of globals_init] by blast
  moreover have "Suc 3 = 4" by simp
  moreover have "cwnd_connected globals_init = 0" "rtt_connected globals_init = 0" "ns_log globals_init = []"
    by (simp_all add: globals_init_def)
  ultimately show ?thesis by (simp only: l append_Nil append_Cons add_0)
qed

end
